theory Spec2Isabelle
  imports Complex_Main "HOL-Library.Sublist"
begin

section \<open>Pharaos Runner: the game state of \<open>src/app/page.tsx\<close>\<close>

text \<open>
  The component \<open>PharaohRunner\<close> keeps its state in React state variables, in refs and in
  three variables local to the game-loop effect. The model is one record holding all of
  them, passed through every handler and returned updated. A state setter (\<open>setScore\<close>,
  \<open>setGameOver\<close>, ...) is modelled as an update of the field; a ref is a field as well.
  JavaScript numbers are modelled exactly: positions, velocities and speeds are \<open>real\<close>,
  counters are \<open>int\<close>. No property below depends on rounding.
\<close>

datatype ObstacleType = Rock | Temple | Scorpion | Snake | Statue

text \<open>
  An element of \<open>obstaclesRef.current\<close>, \<open>{ x: number; type: ObstacleType }\<close>. The fields
  are called \<open>ox\<close> and \<open>otype\<close> here, since \<open>x\<close> is wanted as a variable name.
\<close>

record obstacle =
  ox :: real
  otype :: ObstacleType

text \<open>
  The stored and the in-memory high score are what \<open>parseInt\<close> returns, which may be
  \<open>NaN\<close>; every comparison with \<open>NaN\<close> is false.
\<close>

datatype number = NaN | Num int

fun gt :: "int \<Rightarrow> number \<Rightarrow> bool" where
  "gt a NaN = False"
| "gt a (Num b) = (a > b)"

record game =
  gameStarted :: bool
  gameOver :: bool
  paused :: bool
  score :: int
  highScore :: number
  forceUpdateN :: int
  achievedNewHighScore :: bool
  bgOffset :: real
  playerYRef :: real
  velocityRef :: real
  isDuckingRef :: bool
  obstaclesRef :: "obstacle list"
  gameStartedRef :: bool
  gameOverRef :: bool
  pausedRef :: bool
  lastHighScoreRef :: number
  frameCount :: int
  lastObstacleFrame :: int
  obstacleCount :: int
  storage :: "string option"

text \<open>
  \<open>storage\<close> is the entry \<open>pharaosHighScore\<close> of \<open>localStorage\<close> (\<open>None\<close>: \<open>getItem\<close>
  returns \<open>null\<close>). \<open>forceUpdateN\<close> is the anonymous counter behind \<open>forceUpdate\<close>.
  \<open>frameCount\<close>, \<open>lastObstacleFrame\<close> and \<open>obstacleCount\<close> are the variables of the
  game-loop effect's closure. The state of a freshly mounted component:
\<close>

definition initial :: "string option \<Rightarrow> game" where
  "initial st = \<lparr> gameStarted = False, gameOver = False, paused = False, score = 0,
     highScore = Num 0, forceUpdateN = 0, achievedNewHighScore = False, bgOffset = 0,
     playerYRef = 0, velocityRef = 0, isDuckingRef = False, obstaclesRef = [],
     gameStartedRef = False, gameOverRef = False, pausedRef = False,
     lastHighScoreRef = Num 0, frameCount = 0, lastObstacleFrame = - 100,
     obstacleCount = 0, storage = st \<rparr>"

section \<open>The handlers\<close>

definition startGame :: "game \<Rightarrow> game" where
  "startGame s = s\<lparr> gameStarted := True, gameOver := False, paused := False,
     gameStartedRef := True, gameOverRef := False, pausedRef := False,
     score := 0, achievedNewHighScore := False,
     playerYRef := 0, velocityRef := 0, isDuckingRef := False, obstaclesRef := [] \<rparr>"

definition togglePause :: "game \<Rightarrow> game" where
  "togglePause s =
     (if \<not> gameStartedRef s \<or> gameOverRef s then s
      else let newPaused = \<not> pausedRef s
           in s\<lparr> paused := newPaused, pausedRef := newPaused \<rparr>)"

definition jump :: "game \<Rightarrow> game" where
  "jump s =
     (if \<not> gameStartedRef s \<and> \<not> gameOverRef s then startGame s
      else if gameOverRef s \<or> isDuckingRef s then s
      else if playerYRef s = 0 then s\<lparr> velocityRef := 13 \<rparr>
      else s)"

definition setDuck :: "bool \<Rightarrow> game \<Rightarrow> game" where
  "setDuck ducking s =
     (if \<not> gameStartedRef s \<or> gameOverRef s then s
      else s\<lparr> isDuckingRef := ducking \<rparr>)"

section \<open>The game loop\<close>

subsection \<open>Physics\<close>

definition applyGravity :: "game \<Rightarrow> game" where
  "applyGravity s =
     (let v = velocityRef s - 0.7;
          y = playerYRef s + v
      in if y \<le> 0 then s\<lparr> playerYRef := 0, velocityRef := 0 \<rparr>
         else s\<lparr> playerYRef := y, velocityRef := v \<rparr>)"

subsection \<open>Progressive difficulty\<close>

definition currentScore :: "int \<Rightarrow> int" where
  "currentScore fc = \<lfloor>real_of_int fc / 60\<rfloor>"

definition baseSpeed :: "int \<Rightarrow> real" where
  "baseSpeed fc = 3.5 + min (real_of_int (currentScore fc) * 0.1) 6"

definition spawnInterval :: "int \<Rightarrow> int" where
  "spawnInterval fc = max (140 - currentScore fc * 2) 65"

subsection \<open>Spawning\<close>

text \<open>\<open>rand\<close> is the value that \<open>Math.random()\<close> returns when the frame calls it.\<close>

definition pickType :: "real \<Rightarrow> ObstacleType" where
  "pickType rand =
     (if rand < 0.3 then Rock
      else if rand < 0.5 then Scorpion
      else if rand < 0.7 then Temple
      else if rand < 0.85 then Statue
      else Snake)"

definition spawnFires :: "game \<Rightarrow> bool" where
  "spawnFires s \<longleftrightarrow> frameCount s - lastObstacleFrame s > spawnInterval (frameCount s)"

definition spawnObstacle :: "real \<Rightarrow> game \<Rightarrow> game" where
  "spawnObstacle rand s =
     (if spawnFires s
      then s\<lparr> obstaclesRef := obstaclesRef s @ [\<lparr> ox = 800, otype = pickType rand \<rparr>],
              lastObstacleFrame := frameCount s,
              obstacleCount := obstacleCount s + 1 \<rparr>
      else s)"

subsection \<open>Motion\<close>

definition moveObstacles :: "game \<Rightarrow> game" where
  "moveObstacles s =
     s\<lparr> obstaclesRef :=
          filter (\<lambda>obs. ox obs > - 100)
            (map (\<lambda>obs. obs\<lparr> ox := ox obs - baseSpeed (frameCount s) \<rparr>) (obstaclesRef s)) \<rparr>"

subsection \<open>Collision\<close>

definition isHigh :: "ObstacleType \<Rightarrow> bool" where
  "isHigh t \<longleftrightarrow> t = Temple \<or> t = Statue \<or> t = Snake"

definition obsBottom :: "obstacle \<Rightarrow> real" where
  "obsBottom obs = (if isHigh (otype obs) then 35 else 0)"

definition obsHeight :: "obstacle \<Rightarrow> real" where
  "obsHeight obs = (if isHigh (otype obs) then 80 else 40)"

definition playerHeight :: "bool \<Rightarrow> real" where
  "playerHeight ducking = (if ducking then 20 else 45)"

definition hitX :: "obstacle \<Rightarrow> bool" where
  "hitX obs \<longleftrightarrow> ox obs + 3 < 100 + 35 - 3 \<and> ox obs + 35 - 3 > 100 + 3"

definition hitY :: "bool \<Rightarrow> real \<Rightarrow> obstacle \<Rightarrow> bool" where
  "hitY ducking playerBottom obs \<longleftrightarrow>
     (let playerTop = playerBottom + playerHeight ducking;
          obsTop = obsBottom obs + obsHeight obs
      in playerBottom + 2 < obsTop - 2 \<and> playerTop - 2 > obsBottom obs + 2)"

definition hasCollision :: "game \<Rightarrow> bool" where
  "hasCollision s \<longleftrightarrow>
     list_ex (\<lambda>obs. hitX obs \<and> hitY (isDuckingRef s) (playerYRef s) obs) (obstaclesRef s)"

subsection \<open>One call of \<open>gameLoop\<close>\<close>

text \<open>JavaScript's \<open>%\<close>: the remainder has the sign of the dividend.\<close>

definition jsmod :: "real \<Rightarrow> real \<Rightarrow> real" where
  "jsmod a b = a - b * of_int (if a / b \<ge> 0 then \<lfloor>a / b\<rfloor> else \<lceil>a / b\<rceil>)"

text \<open>
  The first half of the body, up to the collision test: the frame counter, gravity, the
  spawner and the motion of the obstacles, in the order of the source.
\<close>

definition beforeCollision :: "real \<Rightarrow> game \<Rightarrow> game" where
  "beforeCollision rand s =
     (let s1 = s\<lparr> frameCount := frameCount s + 1 \<rparr>;
          s2 = applyGravity s1;
          s3 = spawnObstacle rand s2
      in moveObstacles s3)"

definition gameLoop :: "real \<Rightarrow> game \<Rightarrow> game" where
  "gameLoop rand s =
     (if pausedRef s then s
      else
        let s4 = beforeCollision rand s;
            s5 = (if hasCollision s4 then s4\<lparr> gameOver := True, gameOverRef := True \<rparr> else s4)
        in s5\<lparr> score := score s5 + 1,
               bgOffset := jsmod (bgOffset s5 + baseSpeed (frameCount s5) * 0.3) 800,
               forceUpdateN := forceUpdateN s5 + 1 \<rparr>)"

text \<open>
  The effect that owns the loop has the dependencies \<open>[gameStarted, gameOver]\<close> and returns
  at once unless \<open>gameStarted && !gameOver\<close>; its cleanup cancels the pending animation
  frame. So an animation frame runs \<open>gameLoop\<close> exactly while the game is started and not
  over, and the closure variables are initialised whenever the effect is set up again.
\<close>

definition tick :: "real \<Rightarrow> game \<Rightarrow> game" where
  "tick rand s = (if \<not> gameStarted s \<or> gameOver s then s else gameLoop rand s)"

definition gameLoopEffect :: "game \<Rightarrow> game" where
  "gameLoopEffect s =
     (if \<not> gameStarted s \<or> gameOver s then s
      else s\<lparr> frameCount := 0, lastObstacleFrame := - 100, obstacleCount := 0 \<rparr>)"

section \<open>The high score\<close>

subsection \<open>\<open>parseInt\<close> and \<open>toString\<close>\<close>

text \<open>
  \<open>parseInt(saved)\<close> with no radix, after ECMAScript: leading white space is skipped, a
  sign is read, a prefix \<open>0x\<close> or \<open>0X\<close> selects radix 16, the longest prefix of digits
  is converted, and the result is \<open>NaN\<close> when that prefix is empty. Strings are byte
  strings here, so only the ASCII white space characters are recognised, and the result
  is an exact integer.
\<close>

definition isWhiteSpace :: "char \<Rightarrow> bool" where
  "isWhiteSpace c \<longleftrightarrow> (of_char c :: nat) \<in> {9, 10, 11, 12, 13, 32}"

definition digitVal :: "char \<Rightarrow> nat option" where
  "digitVal c =
     (let n = (of_char c :: nat)
      in if 48 \<le> n \<and> n \<le> 57 then Some (n - 48)
         else if 97 \<le> n \<and> n \<le> 122 then Some (n - 87)
         else if 65 \<le> n \<and> n \<le> 90 then Some (n - 55)
         else None)"

definition isDigit :: "nat \<Rightarrow> char \<Rightarrow> bool" where
  "isDigit radix c = (case digitVal c of None \<Rightarrow> False | Some d \<Rightarrow> d < radix)"

definition digitsValue :: "nat \<Rightarrow> string \<Rightarrow> int" where
  "digitsValue radix z =
     foldl (\<lambda>acc c. acc * int radix + int (case digitVal c of None \<Rightarrow> 0 | Some d \<Rightarrow> d)) 0 z"

definition parseInt :: "string \<Rightarrow> number" where
  "parseInt str =
     (let s1 = dropWhile isWhiteSpace str;
          sign = (if take 1 s1 = ''-'' then - 1 else 1 :: int);
          s2 = (if take 1 s1 = ''-'' \<or> take 1 s1 = ''+'' then drop 1 s1 else s1);
          hex = (take 2 s2 = ''0x'' \<or> take 2 s2 = ''0X'');
          radix = (if hex then 16 else 10);
          s3 = (if hex then drop 2 s2 else s2);
          z = takeWhile (isDigit radix) s3
      in if z = [] then NaN else Num (sign * digitsValue radix z))"

text \<open>\<open>score.toString()\<close> of an integer: its decimal digits, after a minus sign if negative.\<close>

function digitsOf :: "nat \<Rightarrow> string" where
  "digitsOf n =
     (if n < 10 then [''0123456789'' ! n]
      else digitsOf (n div 10) @ [''0123456789'' ! (n mod 10)])"
  by pat_completeness auto
termination
  by (relation "measure id") auto

declare digitsOf.simps [simp del]

definition toString :: "int \<Rightarrow> string" where
  "toString i = (if i < 0 then CHR ''-'' # digitsOf (nat (- i)) else digitsOf (nat i))"

subsection \<open>The two effects\<close>

text \<open>The effect \<open>Load high score\<close>, run once when the component is mounted.\<close>

definition loadHighScore :: "game \<Rightarrow> game" where
  "loadHighScore s =
     (case storage s of
        None \<Rightarrow> s
      | Some saved \<Rightarrow>
          if saved = [] then s
          else let savedScore = parseInt saved
               in s\<lparr> highScore := savedScore, lastHighScoreRef := savedScore \<rparr>)"

text \<open>
  The effect \<open>Track and persist high scores\<close>. \<open>newHighScore\<close> is the condition of its
  first branch. The second condition reads the \<open>highScore\<close> of the render that set the
  effect up, that is the value before \<open>setHighScore\<close>.
\<close>

definition newHighScore :: "game \<Rightarrow> bool" where
  "newHighScore s \<longleftrightarrow> gameStarted s \<and> gt (score s) (lastHighScoreRef s) \<and> score s > 100"

definition highScoreEffect :: "game \<Rightarrow> game" where
  "highScoreEffect s =
     (let s1 = (if newHighScore s
                then s\<lparr> achievedNewHighScore := True,
                        highScore := Num (score s),
                        lastHighScoreRef := Num (score s),
                        storage := Some (toString (score s)) \<rparr>
                else s)
      in if score s > 0 \<and> gt (score s) (highScore s)
         then s1\<lparr> storage := Some (toString (score s)) \<rparr>
         else s1)"

section \<open>Events and runs\<close>

text \<open>
  What can happen to a mounted component: an animation frame, or a call of one of the
  handlers (the buttons call them directly). After each, React renders again and runs
  the effects whose dependencies changed: \<open>[score, gameStarted, highScore]\<close> for the
  high-score effect, \<open>[gameStarted, gameOver]\<close> for the game loop. The high-score
  effect may change \<open>highScore\<close> and is then run once more; the second run changes
  nothing (lemma \<open>highScoreEffect_idempotent\<close>), so it is run once here.
\<close>

datatype event = Frame real | Jump | SetDuck bool | TogglePause | StartGame

definition runEffects :: "game \<Rightarrow> game \<Rightarrow> game" where
  "runEffects old new =
     (let s1 = (if (score new, gameStarted new, highScore new)
                   \<noteq> (score old, gameStarted old, highScore old)
                then highScoreEffect new else new)
      in if (gameStarted s1, gameOver s1) \<noteq> (gameStarted old, gameOver old)
         then gameLoopEffect s1 else s1)"

fun handle :: "event \<Rightarrow> game \<Rightarrow> game" where
  "handle (Frame rand) s = tick rand s"
| "handle Jump s = jump s"
| "handle (SetDuck ducking) s = setDuck ducking s"
| "handle TogglePause s = togglePause s"
| "handle StartGame s = startGame s"

definition dispatch :: "event \<Rightarrow> game \<Rightarrow> game" where
  "dispatch e s = runEffects s (handle e s)"

fun run :: "event list \<Rightarrow> game \<Rightarrow> game" where
  "run [] s = s"
| "run (e # es) s = run es (dispatch e s)"

text \<open>The component after mounting, with the given entry in \<open>localStorage\<close>.\<close>

definition mounted :: "string option \<Rightarrow> game" where
  "mounted st = loadHighScore (initial st)"

section \<open>Runs of an active game\<close>

text \<open>
  Predicates on runs, used to state the properties below. \<open>pausedRun\<close>: the run
  consists of pause toggles and of frames that all arrive while the pause flag is set.
  \<open>playing\<close>: an event of a run that is neither paused nor restarted. \<open>collisionFree\<close>:
  no frame of the run finds an obstacle overlapping the player at its collision test.
\<close>

fun pausedRun :: "event list \<Rightarrow> game \<Rightarrow> bool" where
  "pausedRun [] s = True"
| "pausedRun (Frame rand # es) s = (pausedRef s \<and> pausedRun es (dispatch (Frame rand) s))"
| "pausedRun (TogglePause # es) s = pausedRun es (dispatch TogglePause s)"
| "pausedRun (e # es) s = False"

fun playing :: "event \<Rightarrow> bool" where
  "playing (Frame rand) = True"
| "playing Jump = True"
| "playing (SetDuck ducking) = True"
| "playing TogglePause = False"
| "playing StartGame = False"

fun isFrame :: "event \<Rightarrow> bool" where
  "isFrame (Frame rand) = True"
| "isFrame e = False"

fun collisionFree :: "event list \<Rightarrow> game \<Rightarrow> bool" where
  "collisionFree [] s = True"
| "collisionFree (Frame rand # es) s =
     (\<not> hasCollision (beforeCollision rand s) \<and> collisionFree es (dispatch (Frame rand) s))"
| "collisionFree (e # es) s = collisionFree es (dispatch e s)"

text \<open>
  \<open>active\<close>: a run is going on. \<open>duckingUnderHigh\<close>: the player ducks on the ground
  and every live obstacle is a high one.
\<close>

definition active :: "game \<Rightarrow> bool" where
  "active s \<longleftrightarrow> gameStarted s \<and> \<not> gameOver s \<and> gameStartedRef s \<and> \<not> gameOverRef s"

definition duckingUnderHigh :: "game \<Rightarrow> bool" where
  "duckingUnderHigh s \<longleftrightarrow>
     active s \<and> \<not> pausedRef s \<and> isDuckingRef s \<and> playerYRef s = 0 \<and> velocityRef s = 0
     \<and> list_all (\<lambda>obs. isHigh (otype obs)) (obstaclesRef s)"

text \<open>
  A state of an active run, used as a concrete input: the player standing on the ground
  with one obstacle of the given type at the given position.
\<close>

definition standingAt :: "real \<Rightarrow> ObstacleType \<Rightarrow> game" where
  "standingAt pos t = (startGame (initial None)) \<lparr> obstaclesRef := [\<lparr> ox = pos, otype = t \<rparr>] \<rparr>"

text \<open>
  \<open>tracking h\<close>: what the high-score effect maintains during a run that started with
  the recorded high score \<open>h\<close>. \<open>duckedRun st n\<close>: the component is mounted with the
  stored entry \<open>st\<close>, the game is started, the player ducks at once, and \<open>n\<close> frames
  follow in which \<open>Math.random()\<close> returns 0.9, so that every obstacle is a snake.
\<close>

definition tracking :: "int \<Rightarrow> game \<Rightarrow> bool" where
  "tracking h s \<longleftrightarrow>
     gameStarted s \<and> gameStartedRef s
     \<and> (if score s > h \<and> score s > 100
         then lastHighScoreRef s = Num (score s) \<and> highScore s = Num (score s)
              \<and> storage s = Some (toString (score s)) \<and> achievedNewHighScore s
         else lastHighScoreRef s = Num h)"

definition duckedRun :: "string option \<Rightarrow> nat \<Rightarrow> game" where
  "duckedRun st n = run (SetDuck True # replicate n (Frame 0.9)) (dispatch StartGame (mounted st))"

text \<open>
  The part of the state that the motion of a frame reads and writes: the frame count,
  the last spawn frame, the player's position, velocity and ducking flag, and the
  obstacles. \<open>stepCore\<close> is one frame on that part, \<open>collides\<close> the collision test on
  it, and \<open>coreFrames\<close> a number of frames none of which detects a collision. They
  serve to compute where a long run ends; lemma \<open>core_gameLoop\<close> relates them to
  \<open>gameLoop\<close>.
\<close>

type_synonym core = "int \<times> int \<times> real \<times> real \<times> bool \<times> obstacle list"

definition core :: "game \<Rightarrow> core" where
  "core s = (frameCount s, lastObstacleFrame s, playerYRef s, velocityRef s, isDuckingRef s,
     obstaclesRef s)"

fun stepCore :: "real \<Rightarrow> core \<Rightarrow> core" where
  "stepCore rand (fc, lof, y, v, d, os) =
     (fc + 1,
      if fc + 1 - lof > spawnInterval (fc + 1) then fc + 1 else lof,
      if y + (v - 0.7) \<le> 0 then 0 else y + (v - 0.7),
      if y + (v - 0.7) \<le> 0 then 0 else v - 0.7,
      d,
      filter (\<lambda>obs. ox obs > - 100)
        (map (\<lambda>obs. obs\<lparr> ox := ox obs - baseSpeed (fc + 1) \<rparr>)
           (os @ (if fc + 1 - lof > spawnInterval (fc + 1)
                  then [\<lparr> ox = 800, otype = pickType rand \<rparr>] else []))))"

fun collides :: "core \<Rightarrow> bool" where
  "collides (fc, lof, y, v, d, os) = list_ex (\<lambda>obs. hitX obs \<and> hitY d y obs) os"

primrec coreFrames :: "nat \<Rightarrow> real \<Rightarrow> core \<Rightarrow> core option" where
  "coreFrames 0 rand c = Some c"
| "coreFrames (Suc n) rand c =
     (if collides (stepCore rand c) then None else coreFrames n rand (stepCore rand c))"

text \<open>
  A run in which the player stands still for 218 frames, jumps, and sets the ducking
  flag four frames later, in the air; every obstacle is a snake.
\<close>

definition duckMidAir :: "event list" where
  "duckMidAir = replicate 218 (Frame 0.9) @ [Jump] @ replicate 4 (Frame 0.9) @ [SetDuck True]"

text \<open>
  \<open>consistent\<close>: each state variable agrees with the ref that mirrors it, the player
  is not below the ground, and every obstacle is above the cutoff. Every state that a
  mounted component reaches is consistent (lemma \<open>reachable_consistent\<close>).
\<close>

definition consistent :: "game \<Rightarrow> bool" where
  "consistent s \<longleftrightarrow>
     paused s = pausedRef s \<and> gameStarted s = gameStartedRef s \<and> gameOver s = gameOverRef s
     \<and> 0 \<le> playerYRef s \<and> list_all (\<lambda>obs. ox obs > - 100) (obstaclesRef s)"

section \<open>What each part of the loop changes\<close>

lemma applyGravity_fields [simp]:
  "gameStarted (applyGravity s) = gameStarted s"
  "gameOver (applyGravity s) = gameOver s"
  "paused (applyGravity s) = paused s"
  "score (applyGravity s) = score s"
  "highScore (applyGravity s) = highScore s"
  "forceUpdateN (applyGravity s) = forceUpdateN s"
  "achievedNewHighScore (applyGravity s) = achievedNewHighScore s"
  "bgOffset (applyGravity s) = bgOffset s"
  "isDuckingRef (applyGravity s) = isDuckingRef s"
  "obstaclesRef (applyGravity s) = obstaclesRef s"
  "gameStartedRef (applyGravity s) = gameStartedRef s"
  "gameOverRef (applyGravity s) = gameOverRef s"
  "pausedRef (applyGravity s) = pausedRef s"
  "lastHighScoreRef (applyGravity s) = lastHighScoreRef s"
  "frameCount (applyGravity s) = frameCount s"
  "lastObstacleFrame (applyGravity s) = lastObstacleFrame s"
  "obstacleCount (applyGravity s) = obstacleCount s"
  "storage (applyGravity s) = storage s"
  by (simp_all add: applyGravity_def Let_def)

lemma applyGravity_Y:
  "playerYRef (applyGravity s) = (if playerYRef s + (velocityRef s - 0.7) \<le> 0 then 0 else playerYRef s + (velocityRef s - 0.7))"
  "velocityRef (applyGravity s) = (if playerYRef s + (velocityRef s - 0.7) \<le> 0 then 0 else velocityRef s - 0.7)"
  by (simp_all add: applyGravity_def Let_def)

lemma spawnObstacle_fields [simp]:
  "gameStarted (spawnObstacle r s) = gameStarted s"
  "gameOver (spawnObstacle r s) = gameOver s"
  "paused (spawnObstacle r s) = paused s"
  "score (spawnObstacle r s) = score s"
  "highScore (spawnObstacle r s) = highScore s"
  "forceUpdateN (spawnObstacle r s) = forceUpdateN s"
  "achievedNewHighScore (spawnObstacle r s) = achievedNewHighScore s"
  "bgOffset (spawnObstacle r s) = bgOffset s"
  "playerYRef (spawnObstacle r s) = playerYRef s"
  "velocityRef (spawnObstacle r s) = velocityRef s"
  "isDuckingRef (spawnObstacle r s) = isDuckingRef s"
  "gameStartedRef (spawnObstacle r s) = gameStartedRef s"
  "gameOverRef (spawnObstacle r s) = gameOverRef s"
  "pausedRef (spawnObstacle r s) = pausedRef s"
  "lastHighScoreRef (spawnObstacle r s) = lastHighScoreRef s"
  "frameCount (spawnObstacle r s) = frameCount s"
  "storage (spawnObstacle r s) = storage s"
  by (simp_all add: spawnObstacle_def)

lemma moveObstacles_fields [simp]:
  "gameStarted (moveObstacles s) = gameStarted s"
  "gameOver (moveObstacles s) = gameOver s"
  "paused (moveObstacles s) = paused s"
  "score (moveObstacles s) = score s"
  "highScore (moveObstacles s) = highScore s"
  "forceUpdateN (moveObstacles s) = forceUpdateN s"
  "achievedNewHighScore (moveObstacles s) = achievedNewHighScore s"
  "bgOffset (moveObstacles s) = bgOffset s"
  "playerYRef (moveObstacles s) = playerYRef s"
  "velocityRef (moveObstacles s) = velocityRef s"
  "isDuckingRef (moveObstacles s) = isDuckingRef s"
  "gameStartedRef (moveObstacles s) = gameStartedRef s"
  "gameOverRef (moveObstacles s) = gameOverRef s"
  "pausedRef (moveObstacles s) = pausedRef s"
  "lastHighScoreRef (moveObstacles s) = lastHighScoreRef s"
  "frameCount (moveObstacles s) = frameCount s"
  "lastObstacleFrame (moveObstacles s) = lastObstacleFrame s"
  "obstacleCount (moveObstacles s) = obstacleCount s"
  "storage (moveObstacles s) = storage s"
  by (simp_all add: moveObstacles_def)


lemma spawnObstacle_spawn:
  "obstaclesRef (spawnObstacle r s) =
     obstaclesRef s @ (if spawnFires s then [\<lparr> ox = 800, otype = pickType r \<rparr>] else [])"
  "lastObstacleFrame (spawnObstacle r s) = (if spawnFires s then frameCount s else lastObstacleFrame s)"
  "obstacleCount (spawnObstacle r s) = (if spawnFires s then obstacleCount s + 1 else obstacleCount s)"
  by (simp_all add: spawnObstacle_def)

lemma moveObstacles_obstacles:
  "obstaclesRef (moveObstacles s) =
     filter (\<lambda>obs. ox obs > - 100)
       (map (\<lambda>obs. obs\<lparr> ox := ox obs - baseSpeed (frameCount s) \<rparr>) (obstaclesRef s))"
  by (simp add: moveObstacles_def)

lemma spawnFires_applyGravity [simp]: "spawnFires (applyGravity s) = spawnFires s"
  by (simp add: spawnFires_def)

lemma beforeCollision_fields [simp]:
  "gameStarted (beforeCollision r s) = gameStarted s"
  "gameOver (beforeCollision r s) = gameOver s"
  "paused (beforeCollision r s) = paused s"
  "score (beforeCollision r s) = score s"
  "highScore (beforeCollision r s) = highScore s"
  "forceUpdateN (beforeCollision r s) = forceUpdateN s"
  "achievedNewHighScore (beforeCollision r s) = achievedNewHighScore s"
  "bgOffset (beforeCollision r s) = bgOffset s"
  "isDuckingRef (beforeCollision r s) = isDuckingRef s"
  "gameStartedRef (beforeCollision r s) = gameStartedRef s"
  "gameOverRef (beforeCollision r s) = gameOverRef s"
  "pausedRef (beforeCollision r s) = pausedRef s"
  "lastHighScoreRef (beforeCollision r s) = lastHighScoreRef s"
  "frameCount (beforeCollision r s) = frameCount s + 1"
  "storage (beforeCollision r s) = storage s"
  "playerYRef (beforeCollision r s) = playerYRef (applyGravity s)"
  "velocityRef (beforeCollision r s) = velocityRef (applyGravity s)"
  by (simp_all add: beforeCollision_def Let_def applyGravity_Y)

lemma beforeCollision_spawn:
  "obstaclesRef (beforeCollision r s) =
     filter (\<lambda>obs. ox obs > - 100)
       (map (\<lambda>obs. obs\<lparr> ox := ox obs - baseSpeed (frameCount s + 1) \<rparr>)
          (obstaclesRef s @
             (if frameCount s + 1 - lastObstacleFrame s > spawnInterval (frameCount s + 1)
              then [\<lparr> ox = 800, otype = pickType r \<rparr>] else [])))"
  "lastObstacleFrame (beforeCollision r s) =
     (if frameCount s + 1 - lastObstacleFrame s > spawnInterval (frameCount s + 1)
      then frameCount s + 1 else lastObstacleFrame s)"
  "obstacleCount (beforeCollision r s) =
     (if frameCount s + 1 - lastObstacleFrame s > spawnInterval (frameCount s + 1)
      then obstacleCount s + 1 else obstacleCount s)"
  by (simp_all add: beforeCollision_def Let_def moveObstacles_obstacles spawnObstacle_spawn
        spawnFires_def)

lemma gameLoop_paused [simp]: "pausedRef s \<Longrightarrow> gameLoop r s = s"
  by (simp add: gameLoop_def)

lemma gameLoop_fields [simp]:
  "gameStarted (gameLoop r s) = gameStarted s"
  "paused (gameLoop r s) = paused s"
  "highScore (gameLoop r s) = highScore s"
  "achievedNewHighScore (gameLoop r s) = achievedNewHighScore s"
  "isDuckingRef (gameLoop r s) = isDuckingRef s"
  "gameStartedRef (gameLoop r s) = gameStartedRef s"
  "pausedRef (gameLoop r s) = pausedRef s"
  "lastHighScoreRef (gameLoop r s) = lastHighScoreRef s"
  "storage (gameLoop r s) = storage s"
  by (simp_all add: gameLoop_def Let_def)

lemma gameLoop_running:
  assumes "\<not> pausedRef s"
  shows "score (gameLoop r s) = score s + 1"
    and "forceUpdateN (gameLoop r s) = forceUpdateN s + 1"
    and "frameCount (gameLoop r s) = frameCount s + 1"
    and "gameOver (gameLoop r s) = (gameOver s \<or> hasCollision (beforeCollision r s))"
    and "gameOverRef (gameLoop r s) = (gameOverRef s \<or> hasCollision (beforeCollision r s))"
    and "playerYRef (gameLoop r s) = playerYRef (applyGravity s)"
    and "velocityRef (gameLoop r s) = velocityRef (applyGravity s)"
    and "obstaclesRef (gameLoop r s) = obstaclesRef (beforeCollision r s)"
    and "lastObstacleFrame (gameLoop r s) = lastObstacleFrame (beforeCollision r s)"
    and "obstacleCount (gameLoop r s) = obstacleCount (beforeCollision r s)"
  using assms by (simp_all add: gameLoop_def Let_def)

lemma currentScore_mono: "f1 \<le> f2 \<Longrightarrow> currentScore f1 \<le> currentScore f2"
  unfolding currentScore_def by (intro floor_mono divide_right_mono) simp_all

lemma currentScore_div: "currentScore fc = fc div 60"
  unfolding currentScore_def
  using floor_divide_of_int_eq [of fc 60, where ?'a = real] by simp

lemma baseSpeed_le: "baseSpeed fc \<le> 9.5"
  unfolding baseSpeed_def by simp

lemma spawnInterval_ge: "65 \<le> spawnInterval fc"
  unfolding spawnInterval_def by simp

lemma runEffects_same [simp]: "runEffects s s = s"
  by (simp add: runEffects_def)

lemma tick_paused [simp]: "pausedRef s \<Longrightarrow> tick rand s = s"
  by (simp add: tick_def)

lemma dispatch_Frame_paused: "pausedRef s \<Longrightarrow> dispatch (Frame rand) s = s"
  by (simp add: dispatch_def)

lemma dispatch_TogglePause: "dispatch TogglePause s = togglePause s"
  by (simp add: dispatch_def runEffects_def togglePause_def Let_def)

lemma togglePause_twice: "paused s = pausedRef s \<Longrightarrow> togglePause (togglePause s) = s"
  by (simp add: togglePause_def Let_def)

lemma togglePause_consistent: "paused s = pausedRef s \<Longrightarrow> paused (togglePause s) = pausedRef (togglePause s)"
  by (simp add: togglePause_def Let_def)

lemma pausedRun_parity:
  "paused s = pausedRef s \<Longrightarrow> pausedRun es s \<Longrightarrow>
     run es s = (if even (count_list es TogglePause) then s else togglePause s)"
proof (induction es arbitrary: s)
  case Nil
  then show ?case by simp
next
  case (Cons e es)
  show ?case
  proof (cases e)
    case (Frame rand)
    with Cons.prems have p: "pausedRef s" by simp
    with Cons.prems Frame have r: "pausedRun es s"
      using dispatch_Frame_paused [of s rand] by simp
    from Cons.IH [OF Cons.prems(1) r] p Frame show ?thesis
      by (simp add: dispatch_Frame_paused)
  next
    case TogglePause
    with Cons.prems have r: "pausedRun es (togglePause s)"
      by (simp add: dispatch_TogglePause)
    from Cons.IH [OF togglePause_consistent [OF Cons.prems(1)] r] TogglePause
    show ?thesis
      by (simp add: dispatch_TogglePause togglePause_twice [OF Cons.prems(1)])
  next
    case Jump
    with Cons.prems show ?thesis by simp
  next
    case (SetDuck b)
    with Cons.prems show ?thesis by simp
  next
    case StartGame
    with Cons.prems show ?thesis by simp
  qed
qed

lemma pickType_cases:
  "(pickType r = Rock \<longleftrightarrow> r < 0.3)"
  "(pickType r = Scorpion \<longleftrightarrow> 0.3 \<le> r \<and> r < 0.5)"
  "(pickType r = Temple \<longleftrightarrow> 0.5 \<le> r \<and> r < 0.7)"
  "(pickType r = Statue \<longleftrightarrow> 0.7 \<le> r \<and> r < 0.85)"
  "(pickType r = Snake \<longleftrightarrow> 0.85 \<le> r)"
  by (auto simp add: pickType_def)

lemma highScoreEffect_fields [simp]:
  "gameStarted (highScoreEffect s) = gameStarted s"
  "gameOver (highScoreEffect s) = gameOver s"
  "paused (highScoreEffect s) = paused s"
  "score (highScoreEffect s) = score s"
  "forceUpdateN (highScoreEffect s) = forceUpdateN s"
  "bgOffset (highScoreEffect s) = bgOffset s"
  "playerYRef (highScoreEffect s) = playerYRef s"
  "velocityRef (highScoreEffect s) = velocityRef s"
  "isDuckingRef (highScoreEffect s) = isDuckingRef s"
  "obstaclesRef (highScoreEffect s) = obstaclesRef s"
  "gameStartedRef (highScoreEffect s) = gameStartedRef s"
  "gameOverRef (highScoreEffect s) = gameOverRef s"
  "pausedRef (highScoreEffect s) = pausedRef s"
  "frameCount (highScoreEffect s) = frameCount s"
  "lastObstacleFrame (highScoreEffect s) = lastObstacleFrame s"
  "obstacleCount (highScoreEffect s) = obstacleCount s"
  by (simp_all add: highScoreEffect_def Let_def)

lemma gameLoopEffect_fields [simp]:
  "gameStarted (gameLoopEffect s) = gameStarted s"
  "gameOver (gameLoopEffect s) = gameOver s"
  "paused (gameLoopEffect s) = paused s"
  "score (gameLoopEffect s) = score s"
  "highScore (gameLoopEffect s) = highScore s"
  "forceUpdateN (gameLoopEffect s) = forceUpdateN s"
  "achievedNewHighScore (gameLoopEffect s) = achievedNewHighScore s"
  "bgOffset (gameLoopEffect s) = bgOffset s"
  "playerYRef (gameLoopEffect s) = playerYRef s"
  "velocityRef (gameLoopEffect s) = velocityRef s"
  "isDuckingRef (gameLoopEffect s) = isDuckingRef s"
  "obstaclesRef (gameLoopEffect s) = obstaclesRef s"
  "gameStartedRef (gameLoopEffect s) = gameStartedRef s"
  "gameOverRef (gameLoopEffect s) = gameOverRef s"
  "pausedRef (gameLoopEffect s) = pausedRef s"
  "lastHighScoreRef (gameLoopEffect s) = lastHighScoreRef s"
  "storage (gameLoopEffect s) = storage s"
  by (simp_all add: gameLoopEffect_def)

lemma runEffects_fields [simp]:
  "gameStarted (runEffects old new) = gameStarted new"
  "gameOver (runEffects old new) = gameOver new"
  "paused (runEffects old new) = paused new"
  "score (runEffects old new) = score new"
  "forceUpdateN (runEffects old new) = forceUpdateN new"
  "bgOffset (runEffects old new) = bgOffset new"
  "playerYRef (runEffects old new) = playerYRef new"
  "velocityRef (runEffects old new) = velocityRef new"
  "isDuckingRef (runEffects old new) = isDuckingRef new"
  "obstaclesRef (runEffects old new) = obstaclesRef new"
  "gameStartedRef (runEffects old new) = gameStartedRef new"
  "gameOverRef (runEffects old new) = gameOverRef new"
  "pausedRef (runEffects old new) = pausedRef new"
  by (simp_all add: runEffects_def Let_def)

lemma tick_running: "gameStarted s \<Longrightarrow> \<not> gameOver s \<Longrightarrow> tick rand s = gameLoop rand s"
  by (simp add: tick_def)

lemma tick_stopped: "\<not> gameStarted s \<or> gameOver s \<Longrightarrow> tick rand s = s"
  by (simp add: tick_def)

lemma dispatch_Frame_score:
  "gameStarted s \<Longrightarrow> \<not> gameOver s \<Longrightarrow> \<not> pausedRef s \<Longrightarrow>
     score (dispatch (Frame rand) s) = score s + 1"
  by (simp add: dispatch_def tick_running gameLoop_running)

lemma tick_score_mono: "score s \<le> score (tick rand s)"
  by (cases "pausedRef s") (simp_all add: tick_def gameLoop_running)

lemma handlers_score:
  "gameStartedRef s \<Longrightarrow> score (jump s) = score s"
  "score (setDuck ducking s) = score s"
  "score (togglePause s) = score s"
  by (simp_all add: jump_def setDuck_def togglePause_def Let_def)

lemma handlers_gameStartedRef:
  "gameStartedRef s \<Longrightarrow> gameStartedRef (jump s)"
  "gameStartedRef s \<Longrightarrow> gameStartedRef (setDuck ducking s)"
  "gameStartedRef s \<Longrightarrow> gameStartedRef (togglePause s)"
  "gameStartedRef s \<Longrightarrow> gameStartedRef (tick rand s)"
  by (simp_all add: jump_def setDuck_def togglePause_def Let_def tick_def)

lemma dispatch_score_mono:
  "gameStartedRef s \<Longrightarrow> e \<noteq> StartGame \<Longrightarrow>
     score s \<le> score (dispatch e s) \<and> gameStartedRef (dispatch e s)"
  by (cases e) (simp_all add: dispatch_def handlers_score handlers_gameStartedRef tick_score_mono)

lemma run_score_mono:
  "gameStartedRef s \<Longrightarrow> \<forall>e\<in>set es. e \<noteq> StartGame \<Longrightarrow> score s \<le> score (run es s)"
proof (induction es arbitrary: s)
  case Nil
  then show ?case by simp
next
  case (Cons e es)
  from Cons.prems have d: "score s \<le> score (dispatch e s)" "gameStartedRef (dispatch e s)"
    using dispatch_score_mono [of s e] by simp_all
  from Cons.IH [OF d(2)] Cons.prems(2) have "score (dispatch e s) \<le> score (run es (dispatch e s))"
    by simp
  with d(1) show ?case by simp
qed

lemma active_jump: "active s \<Longrightarrow> jump s = (if \<not> isDuckingRef s \<and> playerYRef s = 0 then s\<lparr> velocityRef := 13 \<rparr> else s)"
  by (simp add: active_def jump_def)

lemma active_setDuck: "active s \<Longrightarrow> setDuck ducking s = s\<lparr> isDuckingRef := ducking \<rparr>"
  by (simp add: active_def setDuck_def)

lemma active_frame:
  assumes "active s" "\<not> pausedRef s" "\<not> hasCollision (beforeCollision rand s)"
  shows "active (dispatch (Frame rand) s)" "\<not> pausedRef (dispatch (Frame rand) s)"
    "score (dispatch (Frame rand) s) = score s + 1"
  using assms by (simp_all add: active_def dispatch_def tick_running gameLoop_running)

lemma active_other:
  assumes "active s" "\<not> pausedRef s" "e = Jump \<or> e = SetDuck ducking"
  shows "active (dispatch e s)" "\<not> pausedRef (dispatch e s)"
    "score (dispatch e s) = score s"
proof -
  have j: "active (jump s)" "\<not> pausedRef (jump s)" "score (jump s) = score s"
    using assms(1,2) by (simp_all add: active_jump) (simp_all add: active_def)
  have d: "active (setDuck ducking s)" "\<not> pausedRef (setDuck ducking s)"
    "score (setDuck ducking s) = score s"
    using assms(1,2) by (simp_all add: active_setDuck) (simp_all add: active_def)
  from assms(3) j d show "active (dispatch e s)" "\<not> pausedRef (dispatch e s)"
    "score (dispatch e s) = score s"
    by (auto simp add: dispatch_def active_def)
qed

lemma run_collisionFree:
  "active s \<Longrightarrow> \<not> pausedRef s \<Longrightarrow> \<forall>e\<in>set es. playing e \<Longrightarrow> collisionFree es s \<Longrightarrow>
     active (run es s) \<and> \<not> pausedRef (run es s)
     \<and> score (run es s) = score s + int (length (filter isFrame es))"
proof (induction es arbitrary: s)
  case Nil
  then show ?case by simp
next
  case (Cons e es)
  show ?case
  proof (cases e)
    case (Frame rand)
    with Cons.prems have nc: "\<not> hasCollision (beforeCollision rand s)"
      and cf: "collisionFree es (dispatch (Frame rand) s)" by simp_all
    note a = active_frame [OF Cons.prems(1,2) nc]
    from Cons.IH [OF a(1,2) _ cf] Cons.prems(3) a(3) Frame show ?thesis by simp
  next
    case Jump
    with Cons.prems have cf: "collisionFree es (dispatch Jump s)" by simp
    note a = active_other [OF Cons.prems(1,2), of Jump]
    from Cons.IH [OF a(1,2) _ cf] Cons.prems(3) a(3) Jump show ?thesis by simp
  next
    case (SetDuck b)
    with Cons.prems have cf: "collisionFree es (dispatch (SetDuck b) s)" by simp
    note a = active_other [OF Cons.prems(1,2), of "SetDuck b" b]
    from Cons.IH [OF a(1,2) _ cf] Cons.prems(3) a(3) SetDuck show ?thesis by simp
  next
    case TogglePause
    with Cons.prems show ?thesis by simp
  next
    case StartGame
    with Cons.prems show ?thesis by simp
  qed
qed

lemma startGame_fresh:
  "active (dispatch StartGame s)" "\<not> pausedRef (dispatch StartGame s)"
  "score (dispatch StartGame s) = 0" "obstaclesRef (dispatch StartGame s) = []"
  "playerYRef (dispatch StartGame s) = 0" "velocityRef (dispatch StartGame s) = 0"
  "\<not> isDuckingRef (dispatch StartGame s)"
  by (simp_all add: dispatch_def active_def startGame_def)

lemma hasCollision_ducking:
  "isDuckingRef t \<Longrightarrow> playerYRef t = 0 \<Longrightarrow> list_all (\<lambda>obs. isHigh (otype obs)) (obstaclesRef t)
     \<Longrightarrow> \<not> hasCollision t"
  by (simp add: hasCollision_def list_ex_iff list_all_iff hitY_def playerHeight_def
        obsBottom_def Let_def)

lemma duckingUnderHigh_frame:
  assumes "duckingUnderHigh s" "0.85 \<le> rand"
  shows "\<not> hasCollision (beforeCollision rand s)" "duckingUnderHigh (dispatch (Frame rand) s)"
proof -
  from assms(1) have a: "active s" "\<not> pausedRef s" "isDuckingRef s" "playerYRef s = 0"
    "velocityRef s = 0" "list_all (\<lambda>obs. isHigh (otype obs)) (obstaclesRef s)"
    by (simp_all add: duckingUnderHigh_def)
  have y: "playerYRef (applyGravity s) = 0" "velocityRef (applyGravity s) = 0"
    using a(4,5) by (simp_all add: applyGravity_Y)
  have h: "isHigh (pickType rand)"
    using assms(2) by (simp add: pickType_def isHigh_def)
  have o: "list_all (\<lambda>obs. isHigh (otype obs)) (obstaclesRef (beforeCollision rand s))"
    using a(6) h by (auto simp add: beforeCollision_spawn list_all_iff)
  show nc: "\<not> hasCollision (beforeCollision rand s)"
    using a(3) y(1) o by (intro hasCollision_ducking) simp_all
  note f = active_frame [OF a(1,2) nc]
  show "duckingUnderHigh (dispatch (Frame rand) s)"
    using f(1,2) a(1,2,3) y o
    by (simp add: duckingUnderHigh_def dispatch_def tick_running gameLoop_running active_def)
qed

lemma duckingUnderHigh_run:
  "duckingUnderHigh s \<Longrightarrow> 0.85 \<le> rand \<Longrightarrow>
     collisionFree (replicate n (Frame rand)) s \<and> duckingUnderHigh (run (replicate n (Frame rand)) s)"
proof (induction n arbitrary: s)
  case 0
  then show ?case by simp
next
  case (Suc n)
  note f = duckingUnderHigh_frame [OF Suc.prems]
  from Suc.IH [OF f(2) Suc.prems(2)] f(1) show ?case by simp
qed

lemma duckingUnderHigh_start: "duckingUnderHigh (dispatch (SetDuck True) (dispatch StartGame s))"
proof -
  note st = startGame_fresh [of s]
  have "dispatch (SetDuck True) (dispatch StartGame s) = (dispatch StartGame s)\<lparr> isDuckingRef := True \<rparr>"
    using st(1) by (simp add: dispatch_def active_setDuck runEffects_def Let_def)
  with st show ?thesis by (simp add: duckingUnderHigh_def active_def)
qed

lemma playerY_nonneg: "0 \<le> playerYRef (applyGravity s)"
  by (simp add: applyGravity_Y)

lemmas eval_frame = gameLoop_running beforeCollision_spawn applyGravity_Y hasCollision_def
  hitX_def hitY_def playerHeight_def obsBottom_def obsHeight_def isHigh_def
  baseSpeed_def spawnInterval_def currentScore_div startGame_def initial_def Let_def

lemmas parse_defs = parseInt_def isWhiteSpace_def isDigit_def digitVal_def digitsValue_def Let_def

lemma parse_examples:
  "parseInt ''abc'' = NaN" "parseInt ''50'' = Num 50" "parseInt '' -12px'' = Num (- 12)"
  "parseInt ''0x1F'' = Num 31"
  by (simp_all add: parse_defs)

lemma toString_examples:
  "toString 600 = ''600''" "toString 101 = ''101''" "toString 102 = ''102''" "toString (- 7) = ''-7''"
  by (simp_all add: toString_def digitsOf.simps)

lemma highScoreEffect_tracking:
  assumes "newHighScore s"
  shows "achievedNewHighScore (highScoreEffect s)"
    "highScore (highScoreEffect s) = Num (score s)"
    "lastHighScoreRef (highScoreEffect s) = Num (score s)"
    "storage (highScoreEffect s) = Some (toString (score s))"
  using assms by (simp_all add: highScoreEffect_def Let_def)

lemma highScoreEffect_idle:
  assumes "\<not> newHighScore s"
  shows "achievedNewHighScore (highScoreEffect s) = achievedNewHighScore s"
    "highScore (highScoreEffect s) = highScore s"
    "lastHighScoreRef (highScoreEffect s) = lastHighScoreRef s"
  using assms by (simp_all add: highScoreEffect_def Let_def)

lemma highScoreEffect_idempotent: "highScoreEffect (highScoreEffect s) = highScoreEffect s"
  by (cases "highScore s"; cases "lastHighScoreRef s")
     (simp_all add: highScoreEffect_def newHighScore_def Let_def)

lemma highScoreEffect_latch:
  "achievedNewHighScore s \<Longrightarrow> achievedNewHighScore (highScoreEffect s)"
  by (simp add: highScoreEffect_def Let_def)

lemma tracking_effect:
  assumes "tracking h s" "gameStarted t" "gameStartedRef t" "score t = score s + 1"
    "lastHighScoreRef t = lastHighScoreRef s"
  shows "tracking h (highScoreEffect t)"
proof (cases "score t > h \<and> score t > 100")
  case True
  have "gt (score t) (lastHighScoreRef s)"
    using assms(1,4) True by (simp add: tracking_def split: if_splits)
  with True assms(2,5) have "newHighScore t" by (simp add: newHighScore_def)
  from highScoreEffect_tracking [OF this] True assms(2,3) show ?thesis
    by (simp add: tracking_def)
next
  case False
  with assms(4) have "\<not> (score s > h \<and> score s > 100)" by auto
  with assms(1) have l: "lastHighScoreRef s = Num h" by (simp add: tracking_def)
  with False assms(5) have "\<not> newHighScore t" by (auto simp add: newHighScore_def)
  from highScoreEffect_idle [OF this] False assms(2,3,5) l show ?thesis
    by (simp add: tracking_def)
qed

lemma tracking_gameLoopEffect [simp]: "tracking h (gameLoopEffect s) = tracking h s"
  by (simp add: tracking_def)

lemma tracking_Frame:
  assumes "tracking h s"
  shows "tracking h (dispatch (Frame rand) s)"
proof (cases "gameStarted s \<and> \<not> gameOver s \<and> \<not> pausedRef s")
  case True
  let ?t = "gameLoop rand s"
  have t: "tick rand s = ?t" using True by (simp add: tick_running)
  have sc: "score ?t = score s + 1" using True by (simp add: gameLoop_running)
  have "tracking h (highScoreEffect ?t)"
    using assms sc by (intro tracking_effect [of h s]) (simp_all add: tracking_def)
  with sc show ?thesis
    by (simp add: dispatch_def t runEffects_def Let_def)
next
  case False
  then have "tick rand s = s" by (auto simp add: tick_def)
  with assms show ?thesis by (simp add: dispatch_def)
qed

lemma tracking_handlers:
  assumes "tracking h s"
  shows "tracking h (dispatch Jump s)" "tracking h (dispatch (SetDuck ducking) s)"
    "tracking h (dispatch TogglePause s)"
  using assms
  by (simp_all add: dispatch_def runEffects_def jump_def setDuck_def togglePause_def Let_def
        tracking_def)

lemma tracking_dispatch: "tracking h s \<Longrightarrow> e \<noteq> StartGame \<Longrightarrow> tracking h (dispatch e s)"
  by (cases e) (simp_all add: tracking_Frame tracking_handlers)

lemma tracking_run: "tracking h s \<Longrightarrow> \<forall>e\<in>set es. e \<noteq> StartGame \<Longrightarrow> tracking h (run es s)"
  by (induction es arbitrary: s) (simp_all add: tracking_dispatch)

lemma tracking_start:
  "lastHighScoreRef s = Num h \<Longrightarrow> tracking h (dispatch StartGame s)"
  by (simp add: dispatch_def runEffects_def Let_def tracking_def startGame_def
        highScoreEffect_def newHighScore_def gameLoopEffect_def)

lemma latch_dispatch:
  assumes "gameStartedRef s" "achievedNewHighScore s" "e \<noteq> StartGame"
  shows "gameStartedRef (dispatch e s) \<and> achievedNewHighScore (dispatch e s)"
proof -
  have h: "gameStartedRef (handle e s) \<and> achievedNewHighScore (handle e s)"
    using assms by (cases e) (simp_all add: jump_def setDuck_def togglePause_def Let_def tick_def)
  then show ?thesis
    by (simp add: dispatch_def runEffects_def Let_def highScoreEffect_latch gameLoopEffect_def)
qed

lemma latch_run:
  "gameStartedRef s \<Longrightarrow> achievedNewHighScore s \<Longrightarrow> \<forall>e\<in>set es. e \<noteq> StartGame \<Longrightarrow>
     achievedNewHighScore (run es s)"
proof (induction es arbitrary: s)
  case Nil
  then show ?case by simp
next
  case (Cons e es)
  from Cons.prems have "gameStartedRef (dispatch e s) \<and> achievedNewHighScore (dispatch e s)"
    by (intro latch_dispatch) simp_all
  with Cons.IH [of "dispatch e s"] Cons.prems(3) show ?case by simp
qed

lemma duckedRun_facts:
  "duckingUnderHigh (duckedRun st n)" "score (duckedRun st n) = int n"
proof -
  let ?s = "dispatch (SetDuck True) (dispatch StartGame (mounted st))"
  have r: "duckedRun st n = run (replicate n (Frame 0.9)) ?s"
    by (simp add: duckedRun_def)
  have d: "duckingUnderHigh ?s" by (rule duckingUnderHigh_start)
  have "(0.85::real) \<le> 0.9" by simp
  note dr = duckingUnderHigh_run [OF d this, of n]
  from dr show "duckingUnderHigh (duckedRun st n)" by (simp add: r)
  have a: "active ?s" "\<not> pausedRef ?s" using d by (simp_all add: duckingUnderHigh_def)
  have z: "score ?s = 0"
    by (simp add: dispatch_def setDuck_def startGame_def)
  have "score (run (replicate n (Frame 0.9)) ?s)
          = score ?s + int (length (filter isFrame (replicate n (Frame 0.9))))"
    using run_collisionFree [OF a, of "replicate n (Frame 0.9)"] dr by simp
  with z show "score (duckedRun st n) = int n" by (simp add: r)
qed

lemma mounted_50: "lastHighScoreRef (mounted (Some ''50'')) = Num 50"
  by (simp add: mounted_def loadHighScore_def initial_def parse_examples Let_def)

lemma duckedRun_tracking: "tracking 50 (duckedRun (Some ''50'') n)"
  unfolding duckedRun_def
  by (intro tracking_run tracking_start mounted_50) simp

lemma duckedRun_tick:
  "score (tick 0.9 (duckedRun st n)) = int n + 1"
  "gameStarted (tick 0.9 (duckedRun st n))"
  "lastHighScoreRef (tick 0.9 (duckedRun st n)) = lastHighScoreRef (duckedRun st n)"
  using duckedRun_facts [of st n]
  by (simp_all add: duckingUnderHigh_def active_def tick_running gameLoop_running)

lemma hitY_unfold:
  "hitY d y obs \<longleftrightarrow>
     y + 2 < obsBottom obs + obsHeight obs - 2 \<and> y + playerHeight d - 2 > obsBottom obs + 2"
  by (simp add: hitY_def Let_def)

lemma coreFrames_numeral:
  "coreFrames (numeral k) rand c =
     (if collides (stepCore rand c) then None
      else coreFrames (pred_numeral k) rand (stepCore rand c))"
  by (simp only: numeral_eq_Suc coreFrames.simps)

lemmas core_eval = coreFrames_numeral spawnInterval_def baseSpeed_def currentScore_div
  pickType_def hitX_def hitY_unfold playerHeight_def obsBottom_def obsHeight_def isHigh_def

lemma core_runEffects:
  "gameStarted new = gameStarted old \<Longrightarrow> gameOver new = gameOver old \<or> gameOver new \<Longrightarrow>
     core (runEffects old new) = core new"
  by (auto simp add: core_def runEffects_def Let_def gameLoopEffect_def)

lemma core_gameLoop:
  assumes "\<not> pausedRef s"
  shows "core (gameLoop rand s) = stepCore rand (core s)"
    and "hasCollision (beforeCollision rand s) = collides (stepCore rand (core s))"
  using assms
  by (simp_all add: core_def gameLoop_running beforeCollision_spawn applyGravity_Y
        hasCollision_def)

lemma core_frame:
  assumes "active s" "\<not> pausedRef s"
  shows "core (dispatch (Frame rand) s) = stepCore rand (core s)"
    and "gameOver (dispatch (Frame rand) s) = collides (stepCore rand (core s))"
proof -
  from assms(1) have a: "gameStarted s" "\<not> gameOver s" by (simp_all add: active_def)
  have t: "tick rand s = gameLoop rand s" using a by (simp add: tick_running)
  have "core (runEffects s (gameLoop rand s)) = core (gameLoop rand s)"
    using a assms(2) by (intro core_runEffects) (simp_all add: gameLoop_running)
  then show "core (dispatch (Frame rand) s) = stepCore rand (core s)"
    using assms(2) by (simp add: dispatch_def t core_gameLoop)
  show "gameOver (dispatch (Frame rand) s) = collides (stepCore rand (core s))"
    using a assms(2) by (simp add: dispatch_def t gameLoop_running core_gameLoop)
qed

lemma coreFrames_run:
  "active s \<Longrightarrow> \<not> pausedRef s \<Longrightarrow> coreFrames n rand (core s) = Some c \<Longrightarrow>
     active (run (replicate n (Frame rand)) s) \<and> \<not> pausedRef (run (replicate n (Frame rand)) s)
     \<and> core (run (replicate n (Frame rand)) s) = c"
proof (induction n arbitrary: s)
  case 0
  then show ?case by simp
next
  case (Suc n)
  from Suc.prems(3) have nc: "\<not> collides (stepCore rand (core s))"
    and r: "coreFrames n rand (stepCore rand (core s)) = Some c"
    by (simp_all split: if_splits)
  from nc have "\<not> hasCollision (beforeCollision rand s)"
    using Suc.prems(2) by (simp add: core_gameLoop)
  note a = active_frame [OF Suc.prems(1,2) this]
  from r have "coreFrames n rand (core (dispatch (Frame rand) s)) = Some c"
    using core_frame(1) [OF Suc.prems(1,2)] by simp
  from Suc.IH [OF a(1,2) this] show ?case by simp
qed

lemma core_jump:
  assumes "active s" "\<not> pausedRef s" "core s = (fc, lof, 0, v, False, os)"
  shows "active (dispatch Jump s)" "\<not> pausedRef (dispatch Jump s)"
    "core (dispatch Jump s) = (fc, lof, 0, 13, False, os)"
proof -
  from assms(3) have "jump s = s\<lparr> velocityRef := 13 \<rparr>"
    using assms(1) by (simp add: active_jump core_def)
  then have d: "dispatch Jump s = s\<lparr> velocityRef := 13 \<rparr>"
    by (simp add: dispatch_def runEffects_def Let_def)
  from assms show "active (dispatch Jump s)" "\<not> pausedRef (dispatch Jump s)"
    "core (dispatch Jump s) = (fc, lof, 0, 13, False, os)"
    unfolding d by (simp_all add: active_def core_def)
qed

lemma core_setDuck:
  assumes "active s" "\<not> pausedRef s" "core s = (fc, lof, y, v, d, os)"
  shows "active (dispatch (SetDuck ducking) s)" "\<not> pausedRef (dispatch (SetDuck ducking) s)"
    "core (dispatch (SetDuck ducking) s) = (fc, lof, y, v, ducking, os)"
proof -
  have d: "dispatch (SetDuck ducking) s = s\<lparr> isDuckingRef := ducking \<rparr>"
    using assms(1) by (simp add: dispatch_def active_setDuck runEffects_def Let_def)
  from assms show "active (dispatch (SetDuck ducking) s)"
    "\<not> pausedRef (dispatch (SetDuck ducking) s)"
    "core (dispatch (SetDuck ducking) s) = (fc, lof, y, v, ducking, os)"
    unfolding d by (simp_all add: active_def core_def)
qed

lemma run_append: "run (es @ fs) s = run fs (run es s)"
  by (induction es arbitrary: s) simp_all

lemma core_start: "core (dispatch StartGame (mounted st)) = (0, - 100, 0, 0, False, [])"
  by (simp add: core_def dispatch_def runEffects_def Let_def startGame_def gameLoopEffect_def
        mounted_def loadHighScore_def initial_def split: option.splits)

lemma duckMidAir_reached:
  "active (run duckMidAir (dispatch StartGame (mounted None)))"
  "\<not> pausedRef (run duckMidAir (dispatch StartGame (mounted None)))"
  "core (run duckMidAir (dispatch StartGame (mounted None))) =
     (222, 178, 45, 10.2, True,
      [\<lparr> ox = 132.1, otype = Snake \<rparr>, \<lparr> ox = 629.2, otype = Snake \<rparr>])"
proof -
  let ?s0 = "dispatch StartGame (mounted None)"
  let ?s1 = "run (replicate 218 (Frame 0.9)) ?s0"
  let ?s2 = "dispatch Jump ?s1"
  let ?s3 = "run (replicate 4 (Frame 0.9)) ?s2"
  let ?s4 = "dispatch (SetDuck True) ?s3"
  have e: "run duckMidAir ?s0 = ?s4"
    by (simp add: duckMidAir_def run_append)
  have c1: "coreFrames 218 0.9 (core ?s0) =
      Some (218, 178, 0, 0, False,
        [\<lparr> ox = 147.3, otype = Snake \<rparr>, \<lparr> ox = 644.4, otype = Snake \<rparr>])"
    unfolding core_start by (simp add: core_eval)
  note s1 = coreFrames_run [OF startGame_fresh(1,2) c1]
  note s2 = core_jump [OF s1 [THEN conjunct1] s1 [THEN conjunct2, THEN conjunct1]
      s1 [THEN conjunct2, THEN conjunct2]]
  have c3: "coreFrames 4 0.9 (core ?s2) =
      Some (222, 178, 45, 10.2, False,
        [\<lparr> ox = 132.1, otype = Snake \<rparr>, \<lparr> ox = 629.2, otype = Snake \<rparr>])"
    unfolding s2(3) by (simp add: core_eval)
  note s3 = coreFrames_run [OF s2(1,2) c3]
  note s4 = core_setDuck [OF s3 [THEN conjunct1] s3 [THEN conjunct2, THEN conjunct1]
      s3 [THEN conjunct2, THEN conjunct2], of True]
  from s4 show "active (run duckMidAir ?s0)" "\<not> pausedRef (run duckMidAir ?s0)"
    "core (run duckMidAir ?s0) =
     (222, 178, 45, 10.2, True,
      [\<lparr> ox = 132.1, otype = Snake \<rparr>, \<lparr> ox = 629.2, otype = Snake \<rparr>])"
    unfolding e by simp_all
qed

lemma NaN_effect:
  "highScore s = NaN \<Longrightarrow> lastHighScoreRef s = NaN \<Longrightarrow> highScoreEffect s = s"
  by (simp add: highScoreEffect_def newHighScore_def)

lemma NaN_handle:
  assumes "highScore s = NaN" "lastHighScoreRef s = NaN"
  shows "highScore (handle e s) = NaN" "lastHighScoreRef (handle e s) = NaN"
    "storage (handle e s) = storage s"
    "achievedNewHighScore (handle e s) \<longrightarrow> achievedNewHighScore s"
  using assms
  by (cases e; simp add: tick_def jump_def setDuck_def togglePause_def startGame_def Let_def)+

lemma NaN_dispatch:
  assumes "highScore s = NaN" "lastHighScoreRef s = NaN"
  shows "highScore (dispatch e s) = NaN" "lastHighScoreRef (dispatch e s) = NaN"
    "storage (dispatch e s) = storage s"
    "achievedNewHighScore (dispatch e s) \<longrightarrow> achievedNewHighScore s"
  using NaN_handle [OF assms, of e] NaN_effect [of "handle e s"]
  by (simp_all add: dispatch_def runEffects_def Let_def)

lemma NaN_run:
  "highScore s = NaN \<Longrightarrow> lastHighScoreRef s = NaN \<Longrightarrow>
     highScore (run es s) = NaN \<and> lastHighScoreRef (run es s) = NaN
     \<and> storage (run es s) = storage s
     \<and> (achievedNewHighScore (run es s) \<longrightarrow> achievedNewHighScore s)"
proof (induction es arbitrary: s)
  case Nil
  then show ?case by simp
next
  case (Cons e es)
  note d = NaN_dispatch [OF Cons.prems, of e]
  from Cons.IH [OF d(1,2)] d(3,4) show ?case by simp
qed

lemma mounted_abc:
  "highScore (mounted (Some ''abc'')) = NaN" "lastHighScoreRef (mounted (Some ''abc'')) = NaN"
  "storage (mounted (Some ''abc'')) = Some ''abc''"
  "\<not> achievedNewHighScore (mounted (Some ''abc''))"
  by (simp_all add: mounted_def loadHighScore_def initial_def parse_examples)

lemma mounted_None:
  "highScore (mounted None) = Num 0" "lastHighScoreRef (mounted None) = Num 0"
  "highScore (mounted (Some '''')) = Num 0"
  by (simp_all add: mounted_def loadHighScore_def initial_def)

lemma duckedRun_tracking_from:
  "lastHighScoreRef (mounted st) = Num h \<Longrightarrow> tracking h (duckedRun st n)"
  unfolding duckedRun_def
  by (intro tracking_run tracking_start) simp_all

lemma consistent_mounted: "consistent (mounted st)"
  by (simp add: consistent_def mounted_def loadHighScore_def initial_def Let_def
        split: option.splits)

lemma consistent_gameLoop: "consistent s \<Longrightarrow> consistent (gameLoop rand s)"
proof (cases "pausedRef s")
  case True
  assume "consistent s"
  with True show ?thesis by simp
next
  case False
  assume c: "consistent s"
  have eq: "obstaclesRef (gameLoop rand s) = obstaclesRef (beforeCollision rand s)"
    using False by (simp add: gameLoop_running)
  have "list_all (\<lambda>obs. ox obs > - 100) (obstaclesRef (gameLoop rand s))"
    unfolding eq beforeCollision_spawn list_all_iff set_filter by blast
  with c False show ?thesis
    by (simp add: consistent_def gameLoop_running playerY_nonneg)
qed

lemma consistent_handle: "consistent s \<Longrightarrow> consistent (handle e s)"
proof (cases e)
  case (Frame rand)
  assume "consistent s"
  then show ?thesis using Frame consistent_gameLoop [of s rand] by (simp add: tick_def)
next
  case Jump
  assume "consistent s"
  then show ?thesis using Jump by (simp add: jump_def startGame_def consistent_def)
next
  case (SetDuck d)
  assume "consistent s"
  then show ?thesis using SetDuck by (simp add: setDuck_def consistent_def)
next
  case TogglePause
  assume "consistent s"
  then show ?thesis using TogglePause by (simp add: togglePause_def Let_def consistent_def)
next
  case StartGame
  assume "consistent s"
  then show ?thesis using StartGame by (simp add: startGame_def consistent_def)
qed

lemma consistent_runEffects: "consistent new \<Longrightarrow> consistent (runEffects old new)"
  by (simp add: consistent_def)

lemma consistent_run: "consistent s \<Longrightarrow> consistent (run es s)"
  by (induction es arbitrary: s) (simp_all add: dispatch_def consistent_handle consistent_runEffects)

lemma reachable_consistent:
  "paused (run es (mounted st)) = pausedRef (run es (mounted st))"
  "0 \<le> playerYRef (run es (mounted st))"
  "list_all (\<lambda>obs. ox obs > - 100) (obstaclesRef (run es (mounted st)))"
  using consistent_run [OF consistent_mounted, of es st] by (simp_all add: consistent_def)

section \<open>Physics integrator\<close>

text \<open>
  Claim C3. A frame that is not paused subtracts the gravity 0.7 from the velocity, adds
  the new velocity to the position, and sets both to 0 when the new position is at most
  0. So after the frame the position is never negative, and the velocity is 0 whenever
  the position is 0. In every state that a mounted component reaches, the position is
  not negative.
\<close>

theorem physics_integrator:
  "\<not> pausedRef s \<Longrightarrow>
     (let v = velocityRef s - 0.7;
          y = playerYRef s + v;
          s' = gameLoop rand s
      in (if y \<le> 0 then playerYRef s' = 0 \<and> velocityRef s' = 0
          else playerYRef s' = y \<and> velocityRef s' = v)
         \<and> playerYRef s' \<ge> 0
         \<and> (playerYRef s' = 0 \<longrightarrow> velocityRef s' = 0)
         \<and> 0 \<le> playerYRef (run es (mounted st)))"
  by (simp add: gameLoop_running applyGravity_Y Let_def reachable_consistent)

theorem physics_integrator_witness:
  "\<not> pausedRef (jump (startGame (initial None)))
   \<and> playerYRef (gameLoop 0 (jump (startGame (initial None)))) = 12.3
   \<and> velocityRef (gameLoop 0 (jump (startGame (initial None)))) = 12.3
   \<and> playerYRef (gameLoop 0 (startGame (initial None))) = 0
   \<and> velocityRef (gameLoop 0 (startGame (initial None))) = 0"
  using physics_integrator [of "jump (startGame (initial None))" 0]
    physics_integrator [of "startGame (initial None)" 0]
  by (simp add: jump_def startGame_def initial_def Let_def)

section \<open>Difficulty scheduler\<close>

text \<open>
  Claim C6. The speed never decreases and the spawn interval never increases as the
  frame count grows; the speed is at most 9.5 and the spawn interval at least 65 at
  every frame count.
\<close>

theorem difficulty_monotone_bounded:
  "f1 \<le> f2 \<Longrightarrow>
     baseSpeed f1 \<le> baseSpeed f2 \<and> spawnInterval f2 \<le> spawnInterval f1
     \<and> baseSpeed fc \<le> 9.5 \<and> 65 \<le> spawnInterval fc"
proof -
  assume "f1 \<le> f2"
  then have c: "currentScore f1 \<le> currentScore f2" by (rule currentScore_mono)
  then have "real_of_int (currentScore f1) * 0.1 \<le> real_of_int (currentScore f2) * 0.1"
    by simp
  then have 1: "baseSpeed f1 \<le> baseSpeed f2"
    unfolding baseSpeed_def by (simp add: min_le_iff_disj)
  have 2: "spawnInterval f2 \<le> spawnInterval f1"
    using c unfolding spawnInterval_def by simp
  have 3: "baseSpeed fc \<le> 9.5" unfolding baseSpeed_def by simp
  have 4: "65 \<le> spawnInterval fc" unfolding spawnInterval_def by simp
  from 1 2 3 4 show ?thesis by simp
qed

theorem difficulty_monotone_bounded_witness:
  "(0::int) \<le> 3600 \<and> baseSpeed 0 = 3.5 \<and> baseSpeed 3600 = 9.5
   \<and> spawnInterval 0 = 140 \<and> spawnInterval 3600 = 65
   \<and> baseSpeed 0 \<le> baseSpeed 3600 \<and> spawnInterval 3600 \<le> spawnInterval 0"
  using difficulty_monotone_bounded [of 0 3600 0]
  by (simp add: baseSpeed_def spawnInterval_def currentScore_div)

section \<open>Motion updater\<close>

text \<open>
  Claim C7. A frame that is not paused moves every obstacle, the one just spawned
  included, left by the speed of the new frame count, and keeps exactly those whose
  position is still above the cutoff -100, in their order. So no obstacle of the live
  list is at or below the cutoff after the frame, nor in any state that a mounted
  component reaches.
\<close>

theorem motion_updater:
  "\<not> pausedRef s \<Longrightarrow>
     (let fc = frameCount s + 1;
          speed = baseSpeed fc;
          spawned = (if fc - lastObstacleFrame s > spawnInterval fc
                     then [\<lparr> ox = 800, otype = pickType rand \<rparr>] else []);
          moved = map (\<lambda>obs. obs\<lparr> ox := ox obs - speed \<rparr>) (obstaclesRef s @ spawned);
          s' = gameLoop rand s
      in obstaclesRef s' = filter (\<lambda>obs. ox obs > - 100) moved
         \<and> subseq (obstaclesRef s') moved
         \<and> list_all (\<lambda>obs. ox obs > - 100) (obstaclesRef s')
         \<and> list_all (\<lambda>obs. ox obs > - 100) (obstaclesRef (run es (mounted st))))"
proof -
  assume np: "\<not> pausedRef s"
  let ?moved = "map (\<lambda>obs. obs\<lparr> ox := ox obs - baseSpeed (frameCount s + 1) \<rparr>)
            (obstaclesRef s @
               (if frameCount s + 1 - lastObstacleFrame s > spawnInterval (frameCount s + 1)
                then [\<lparr> ox = 800, otype = pickType rand \<rparr>] else []))"
  have eq: "obstaclesRef (gameLoop rand s) = filter (\<lambda>obs. ox obs > - 100) ?moved"
    using np by (simp add: gameLoop_running beforeCollision_spawn)
  have sub: "subseq (obstaclesRef (gameLoop rand s)) ?moved"
    unfolding eq by (rule subseq_filter_left)
  have cut: "list_all (\<lambda>obs. ox obs > - 100) (obstaclesRef (gameLoop rand s))"
    unfolding eq list_all_iff set_filter by blast
  note inv = reachable_consistent(3) [of es st]
  from eq sub cut inv show ?thesis unfolding Let_def by blast
qed

theorem motion_updater_witness:
  "\<not> pausedRef (startGame (initial None))
   \<and> obstaclesRef (gameLoop 0 ((startGame (initial None))
         \<lparr> obstaclesRef := [\<lparr> ox = - 97, otype = Rock \<rparr>, \<lparr> ox = 300, otype = Snake \<rparr>] \<rparr>))
       = [\<lparr> ox = 296.5, otype = Snake \<rparr>]"
  using motion_updater [of "(startGame (initial None))
         \<lparr> obstaclesRef := [\<lparr> ox = - 97, otype = Rock \<rparr>, \<lparr> ox = 300, otype = Snake \<rparr>] \<rparr>" 0]
  by (simp add: startGame_def initial_def Let_def baseSpeed_def spawnInterval_def
        currentScore_div)

section \<open>Jumping\<close>

text \<open>
  Claim C10. While a run is active (started, not over), \<open>jump\<close> changes nothing
  unless the player is not ducking and is on the ground; then it sets the velocity to
  13 and changes nothing else.
\<close>

theorem jump_only_on_ground:
  "gameStartedRef s \<Longrightarrow> \<not> gameOverRef s \<Longrightarrow>
     jump s = (if \<not> isDuckingRef s \<and> playerYRef s = 0 then s\<lparr> velocityRef := 13 \<rparr> else s)"
  by (simp add: jump_def)

theorem jump_only_on_ground_witness:
  "gameStartedRef (startGame (initial None)) \<and> \<not> gameOverRef (startGame (initial None))
   \<and> jump (startGame (initial None)) = (startGame (initial None))\<lparr> velocityRef := 13 \<rparr>
   \<and> jump (setDuck True (startGame (initial None))) = setDuck True (startGame (initial None))
   \<and> jump ((startGame (initial None))\<lparr> playerYRef := 40 \<rparr>) = (startGame (initial None))\<lparr> playerYRef := 40 \<rparr>"
  using jump_only_on_ground [of "startGame (initial None)"]
    jump_only_on_ground [of "setDuck True (startGame (initial None))"]
    jump_only_on_ground [of "(startGame (initial None))\<lparr> playerYRef := 40 \<rparr>"]
  by (simp add: startGame_def initial_def setDuck_def)

section \<open>Pausing\<close>

text \<open>
  Claim C5. A call of \<open>gameLoop\<close> while the pause flag is set returns the state
  unchanged, and so does the whole frame. Hence a run made of pause toggles and of
  frames that arrive while paused, with an even number of toggles, ends in the state
  it started from, provided the state variable \<open>paused\<close> agrees with the ref
  \<open>pausedRef\<close> that the loop reads; they agree in every state that a mounted component
  reaches.
\<close>

theorem pause_freezes:
  "(pausedRef s \<longrightarrow> gameLoop rand s = s \<and> dispatch (Frame rand) s = s)
   \<and> (paused s = pausedRef s \<and> pausedRun es s \<and> even (count_list es TogglePause)
        \<longrightarrow> run es s = s)
   \<and> paused (run fs (mounted st)) = pausedRef (run fs (mounted st))"
  using pausedRun_parity [of s es] reachable_consistent(1) [of fs st]
  by (simp add: dispatch_Frame_paused)

theorem pause_freezes_witness:
  "pausedRef (togglePause (startGame (initial None)))
   \<and> paused (startGame (initial None)) = pausedRef (startGame (initial None))
   \<and> pausedRun [TogglePause, Frame 0.1, Frame 0.9, TogglePause, TogglePause, Frame 0.4, TogglePause]
        (startGame (initial None))
   \<and> even (count_list [TogglePause, Frame 0.1, Frame 0.9, TogglePause, TogglePause, Frame 0.4, TogglePause] TogglePause)
   \<and> gameLoop 0.5 (togglePause (startGame (initial None))) = togglePause (startGame (initial None))
   \<and> run [TogglePause, Frame 0.1, Frame 0.9, TogglePause, TogglePause, Frame 0.4, TogglePause]
        (startGame (initial None)) = startGame (initial None)"
  using pause_freezes [of "togglePause (startGame (initial None))" "0.5" "[]"]
    pause_freezes [of "startGame (initial None)" 0
      "[TogglePause, Frame 0.1, Frame 0.9, TogglePause, TogglePause, Frame 0.4, TogglePause]"]
  by (simp add: dispatch_TogglePause dispatch_Frame_paused togglePause_def startGame_def
        initial_def Let_def)

section \<open>Obstacle spawner\<close>

text \<open>
  Claim C8. In a frame that is not paused the spawner fires exactly when the new frame
  count minus the last spawn frame exceeds the spawn interval of the new frame count.
  When it fires it appends one obstacle at position 800, of the type that the random
  value selects, and records the frame count as the last spawn frame; the obstacle is
  then moved with the others in the same frame. The five types correspond to five
  intervals that partition the values from 0 up to 1.
\<close>

theorem obstacle_spawner:
  "\<not> pausedRef s \<Longrightarrow> 0 \<le> rand \<Longrightarrow> rand < 1 \<Longrightarrow>
     (let fc = frameCount s + 1;
          fires = (fc - lastObstacleFrame s > spawnInterval fc);
          s' = gameLoop rand s
      in spawnFires (s\<lparr> frameCount := fc \<rparr>) = fires
         \<and> lastObstacleFrame s' = (if fires then fc else lastObstacleFrame s)
         \<and> obstacleCount s' = (if fires then obstacleCount s + 1 else obstacleCount s)
         \<and> obstaclesRef (spawnObstacle rand (s\<lparr> frameCount := fc \<rparr>)) =
             obstaclesRef s @ (if fires then [\<lparr> ox = 800, otype = pickType rand \<rparr>] else [])
         \<and> obstaclesRef s' =
             filter (\<lambda>obs. ox obs > - 100)
               (map (\<lambda>obs. obs\<lparr> ox := ox obs - baseSpeed fc \<rparr>) (obstaclesRef s))
             @ (if fires then [\<lparr> ox = 800 - baseSpeed fc, otype = pickType rand \<rparr>] else [])
         \<and> (pickType rand = Rock \<longleftrightarrow> rand \<in> {0 ..< 0.3})
         \<and> (pickType rand = Scorpion \<longleftrightarrow> rand \<in> {0.3 ..< 0.5})
         \<and> (pickType rand = Temple \<longleftrightarrow> rand \<in> {0.5 ..< 0.7})
         \<and> (pickType rand = Statue \<longleftrightarrow> rand \<in> {0.7 ..< 0.85})
         \<and> (pickType rand = Snake \<longleftrightarrow> rand \<in> {0.85 ..< 1}))"
proof -
  assume np: "\<not> pausedRef s" and r: "0 \<le> rand" "rand < 1"
  let ?fc = "frameCount s + 1"
  let ?fires = "?fc - lastObstacleFrame s > spawnInterval ?fc"
  have 1: "spawnFires (s\<lparr> frameCount := ?fc \<rparr>) = ?fires"
    by (simp add: spawnFires_def)
  have 2: "lastObstacleFrame (gameLoop rand s) = (if ?fires then ?fc else lastObstacleFrame s)"
    using np by (simp add: gameLoop_running beforeCollision_spawn)
  have 3: "obstacleCount (gameLoop rand s) = (if ?fires then obstacleCount s + 1 else obstacleCount s)"
    using np by (simp add: gameLoop_running beforeCollision_spawn)
  have 4: "obstaclesRef (spawnObstacle rand (s\<lparr> frameCount := ?fc \<rparr>)) =
             obstaclesRef s @ (if ?fires then [\<lparr> ox = 800, otype = pickType rand \<rparr>] else [])"
    by (simp add: spawnObstacle_spawn spawnFires_def)
  have "800 - baseSpeed ?fc > - 100"
    using baseSpeed_le [of ?fc] by simp
  then have 5: "obstaclesRef (gameLoop rand s) =
             filter (\<lambda>obs. ox obs > - 100)
               (map (\<lambda>obs. obs\<lparr> ox := ox obs - baseSpeed ?fc \<rparr>) (obstaclesRef s))
             @ (if ?fires then [\<lparr> ox = 800 - baseSpeed ?fc, otype = pickType rand \<rparr>] else [])"
    using np by (simp add: gameLoop_running beforeCollision_spawn)
  have 6: "(pickType rand = Rock \<longleftrightarrow> rand \<in> {0 ..< 0.3})"
    "(pickType rand = Scorpion \<longleftrightarrow> rand \<in> {0.3 ..< 0.5})"
    "(pickType rand = Temple \<longleftrightarrow> rand \<in> {0.5 ..< 0.7})"
    "(pickType rand = Statue \<longleftrightarrow> rand \<in> {0.7 ..< 0.85})"
    "(pickType rand = Snake \<longleftrightarrow> rand \<in> {0.85 ..< 1})"
    using r by (simp_all add: pickType_cases)
  from 1 2 3 4 5 6 show ?thesis unfolding Let_def by blast
qed

theorem obstacle_spawner_witness:
  "\<not> pausedRef ((startGame (initial None))\<lparr> frameCount := 40 \<rparr>) \<and> (0::real) \<le> 0.6 \<and> (0.6::real) < 1
   \<and> obstaclesRef (gameLoop 0.6 ((startGame (initial None))\<lparr> frameCount := 40 \<rparr>))
        = [\<lparr> ox = 796.5, otype = Temple \<rparr>]
   \<and> lastObstacleFrame (gameLoop 0.6 ((startGame (initial None))\<lparr> frameCount := 40 \<rparr>)) = 41
   \<and> obstaclesRef (gameLoop 0.6 ((startGame (initial None))\<lparr> frameCount := 39 \<rparr>)) = []
   \<and> lastObstacleFrame (gameLoop 0.6 ((startGame (initial None))\<lparr> frameCount := 39 \<rparr>)) = - 100"
  using obstacle_spawner [of "(startGame (initial None))\<lparr> frameCount := 40 \<rparr>" "0.6"]
    obstacle_spawner [of "(startGame (initial None))\<lparr> frameCount := 39 \<rparr>" "0.6"]
  by (simp add: startGame_def initial_def Let_def baseSpeed_def spawnInterval_def
        currentScore_div pickType_def)

section \<open>Collision detector\<close>

text \<open>
  Claim C1, as the code has it. A frame that is not paused ends the game exactly when
  it was over already or some live obstacle overlaps the player horizontally and
  vertically. For an obstacle that overlaps horizontally: a low one (rock, scorpion)
  hits a player who is not ducking at position 0 and misses a player above 40; a high
  one (temple, statue, snake) misses a ducking player at position 19 or lower and hits
  a player who is not ducking below 35. A ducking player above 19 and below 111 is hit
  by a high obstacle. Exactly: a high obstacle hits a ducking player when the position
  is above 19 and below 111, and a player who is not ducking when it is below 111; a
  low obstacle hits when the position is below 36, ducking or not.
\<close>

theorem collision_outcome:
  "\<not> pausedRef s \<Longrightarrow> hitX obs \<Longrightarrow>
     (let s' = gameLoop rand s; d = isDuckingRef s'; y = playerYRef s'
      in (gameOver s' \<longleftrightarrow> gameOver s \<or> list_ex (\<lambda>obs. hitX obs \<and> hitY d y obs) (obstaclesRef s'))
         \<and> (obs \<in> set (obstaclesRef s') \<and> hitY d y obs \<longrightarrow> gameOver s')
         \<and> (\<not> isHigh (otype obs) \<and> \<not> d \<and> y = 0 \<longrightarrow> hitY d y obs)
         \<and> (\<not> isHigh (otype obs) \<and> y > 40 \<longrightarrow> \<not> hitY d y obs)
         \<and> (isHigh (otype obs) \<and> d \<and> y \<le> 19 \<longrightarrow> \<not> hitY d y obs)
         \<and> (isHigh (otype obs) \<and> \<not> d \<and> y < 35 \<longrightarrow> hitY d y obs)
         \<and> (isHigh (otype obs) \<and> d \<and> 19 < y \<and> y < 111 \<longrightarrow> hitY d y obs)
         \<and> (isHigh (otype obs) \<and> d \<longrightarrow> (hitY d y obs \<longleftrightarrow> 19 < y \<and> y < 111))
         \<and> (isHigh (otype obs) \<and> \<not> d \<longrightarrow> (hitY d y obs \<longleftrightarrow> y < 111))
         \<and> (\<not> isHigh (otype obs) \<longrightarrow> (hitY d y obs \<longleftrightarrow> y < 36)))"
proof -
  assume np: "\<not> pausedRef s" and hx: "hitX obs"
  let ?s = "gameLoop rand s"
  let ?d = "isDuckingRef ?s"
  let ?y = "playerYRef ?s"
  have y0: "0 \<le> ?y"
    using np by (simp add: gameLoop_running playerY_nonneg)
  have 1: "gameOver ?s \<longleftrightarrow> gameOver s \<or> list_ex (\<lambda>obs. hitX obs \<and> hitY ?d ?y obs) (obstaclesRef ?s)"
    using np by (simp add: gameLoop_running hasCollision_def)
  have 2: "obs \<in> set (obstaclesRef ?s) \<and> hitY ?d ?y obs \<longrightarrow> gameOver ?s"
    unfolding 1 list_ex_iff using hx by blast
  have 3: "\<not> isHigh (otype obs) \<and> \<not> ?d \<and> ?y = 0 \<longrightarrow> hitY ?d ?y obs"
    by (simp add: hitY_def playerHeight_def obsBottom_def obsHeight_def)
  have 4: "\<not> isHigh (otype obs) \<and> ?y > 40 \<longrightarrow> \<not> hitY ?d ?y obs"
    by (simp add: hitY_def playerHeight_def obsBottom_def obsHeight_def)
  have 5: "isHigh (otype obs) \<and> ?d \<and> ?y \<le> 19 \<longrightarrow> \<not> hitY ?d ?y obs"
    by (simp add: hitY_def playerHeight_def obsBottom_def obsHeight_def)
  have 6: "isHigh (otype obs) \<and> \<not> ?d \<and> ?y < 35 \<longrightarrow> hitY ?d ?y obs"
    using y0 by (simp add: hitY_def playerHeight_def obsBottom_def obsHeight_def)
  have 7: "isHigh (otype obs) \<and> ?d \<and> 19 < ?y \<and> ?y < 111 \<longrightarrow> hitY ?d ?y obs"
    by (simp add: hitY_def playerHeight_def obsBottom_def obsHeight_def)
  have 8: "isHigh (otype obs) \<and> ?d \<longrightarrow> (hitY ?d ?y obs \<longleftrightarrow> 19 < ?y \<and> ?y < 111)"
    by (auto simp add: hitY_def playerHeight_def obsBottom_def obsHeight_def)
  have 9: "isHigh (otype obs) \<and> \<not> ?d \<longrightarrow> (hitY ?d ?y obs \<longleftrightarrow> ?y < 111)"
    using y0 by (auto simp add: hitY_def playerHeight_def obsBottom_def obsHeight_def)
  have 10: "\<not> isHigh (otype obs) \<longrightarrow> (hitY ?d ?y obs \<longleftrightarrow> ?y < 36)"
    using y0 by (auto simp add: hitY_def playerHeight_def obsBottom_def obsHeight_def)
  from 1 2 3 4 5 6 7 8 9 10 show ?thesis unfolding Let_def by blast
qed

theorem collision_outcome_witness:
  "\<not> pausedRef (standingAt 110 Rock) \<and> hitX \<lparr> ox = 106.5, otype = Rock \<rparr>
   \<and> gameOver (gameLoop 0 (standingAt 110 Rock))
   \<and> gameOver (gameLoop 0 (standingAt 110 Temple))
   \<and> \<not> gameOver (gameLoop 0 (setDuck True (standingAt 110 Temple)))
   \<and> \<not> gameOver (gameLoop 0 ((standingAt 110 Rock)\<lparr> playerYRef := 50 \<rparr>))
   \<and> isDuckingRef (gameLoop 0 ((setDuck True (standingAt 110 Temple))\<lparr> playerYRef := 50 \<rparr>))
   \<and> playerYRef (gameLoop 0 ((setDuck True (standingAt 110 Temple))\<lparr> playerYRef := 50 \<rparr>)) = 49.3
   \<and> gameOver (gameLoop 0 ((setDuck True (standingAt 110 Temple))\<lparr> playerYRef := 50 \<rparr>))"
  using collision_outcome [of "standingAt 110 Rock" "\<lparr> ox = 106.5, otype = Rock \<rparr>" 0]
    collision_outcome [of "(setDuck True (standingAt 110 Temple))\<lparr> playerYRef := 50 \<rparr>"
      "\<lparr> ox = 106.5, otype = Temple \<rparr>" 0]
    collision_outcome [of "standingAt 110 Temple" "\<lparr> ox = 106.5, otype = Temple \<rparr>" 0]
    collision_outcome [of "setDuck True (standingAt 110 Temple)" "\<lparr> ox = 106.5, otype = Temple \<rparr>" 0]
    collision_outcome [of "(standingAt 110 Rock)\<lparr> playerYRef := 50 \<rparr>" "\<lparr> ox = 106.5, otype = Rock \<rparr>" 0]
  by (simp add: standingAt_def setDuck_def eval_frame)

text \<open>
  Claim C1 as stated fails: ducking alone does not avoid a high obstacle. In the run \<open>duckMidAir\<close> the player
  sets the ducking flag in the air at height 45, after frame 222, with a snake at
  position 132.1. The next frame moves the player to 54.5 and the snake to 128.3, where
  it overlaps the player horizontally, and the game is over.
\<close>

theorem ducking_airborne_hits_high:
  "isDuckingRef (run duckMidAir (dispatch StartGame (mounted None)))
   \<and> playerYRef (run duckMidAir (dispatch StartGame (mounted None))) = 45
   \<and> \<not> gameOver (run duckMidAir (dispatch StartGame (mounted None)))
   \<and> isDuckingRef (run (duckMidAir @ [Frame 0.9]) (dispatch StartGame (mounted None)))
   \<and> playerYRef (run (duckMidAir @ [Frame 0.9]) (dispatch StartGame (mounted None))) = 54.5
   \<and> obstaclesRef (run (duckMidAir @ [Frame 0.9]) (dispatch StartGame (mounted None)))
       = [\<lparr> ox = 128.3, otype = Snake \<rparr>, \<lparr> ox = 625.4, otype = Snake \<rparr>]
   \<and> isHigh Snake \<and> hitX \<lparr> ox = 128.3, otype = Snake \<rparr>
   \<and> gameOver (run (duckMidAir @ [Frame 0.9]) (dispatch StartGame (mounted None)))"
proof -
  let ?s = "run duckMidAir (dispatch StartGame (mounted None))"
  note r = duckMidAir_reached
  have st: "stepCore 0.9 (core ?s) =
      (223, 178, 54.5, 9.5, True,
       [\<lparr> ox = 128.3, otype = Snake \<rparr>, \<lparr> ox = 625.4, otype = Snake \<rparr>])"
    unfolding r(3) by (simp add: core_eval)
  have co: "collides (stepCore 0.9 (core ?s))"
    unfolding st by (simp add: core_eval)
  have e: "run (duckMidAir @ [Frame 0.9]) (dispatch StartGame (mounted None))
      = dispatch (Frame 0.9) ?s"
    by (simp add: run_append)
  have c: "core (dispatch (Frame 0.9) ?s) =
      (223, 178, 54.5, 9.5, True,
       [\<lparr> ox = 128.3, otype = Snake \<rparr>, \<lparr> ox = 625.4, otype = Snake \<rparr>])"
    using core_frame(1) [OF r(1,2)] st by simp
  have g: "gameOver (dispatch (Frame 0.9) ?s)"
    using core_frame(2) [OF r(1,2)] co by simp
  from r(1,3) c g show ?thesis
    unfolding e by (simp add: core_def active_def isHigh_def hitX_def)
qed

section \<open>Score\<close>

text \<open>
  Claim C2. A frame of a started game that is neither over nor paused adds exactly one
  to the score; the score never decreases during a run; and a fresh run of 650 frames
  in which no frame detects a collision ends with the game not over and the score 650.
\<close>

theorem score_counts_frames:
  "(gameStarted s \<and> \<not> gameOver s \<and> \<not> pausedRef s \<longrightarrow>
      score (gameLoop rand s) = score s + 1 \<and> score (dispatch (Frame rand) s) = score s + 1)
   \<and> (gameStartedRef s \<and> (\<forall>e\<in>set es. e \<noteq> StartGame) \<longrightarrow> score s \<le> score (run es s))
   \<and> ((\<forall>e\<in>set es. playing e) \<and> length (filter isFrame es) = 650
        \<and> collisionFree es (dispatch StartGame s) \<longrightarrow>
      gameOver (run es (dispatch StartGame s)) = False
      \<and> score (run es (dispatch StartGame s)) = 650)"
proof -
  have 1: "gameStarted s \<and> \<not> gameOver s \<and> \<not> pausedRef s \<longrightarrow>
      score (gameLoop rand s) = score s + 1 \<and> score (dispatch (Frame rand) s) = score s + 1"
    by (simp add: gameLoop_running dispatch_Frame_score)
  have 2: "gameStartedRef s \<and> (\<forall>e\<in>set es. e \<noteq> StartGame) \<longrightarrow> score s \<le> score (run es s)"
    using run_score_mono [of s es] by blast
  have 3: "gameOver (run es (dispatch StartGame s)) = False
      \<and> score (run es (dispatch StartGame s)) = 650"
    if "\<forall>e\<in>set es. playing e" "length (filter isFrame es) = 650"
      "collisionFree es (dispatch StartGame s)"
    using run_collisionFree [OF startGame_fresh(1,2) that(1,3)] that(2)
    by (simp add: startGame_fresh active_def)
  from 1 2 3 show ?thesis by blast
qed

theorem score_counts_frames_witness:
  "gameStarted (dispatch StartGame (mounted None)) \<and> \<not> gameOver (dispatch StartGame (mounted None))
   \<and> \<not> pausedRef (dispatch StartGame (mounted None))
   \<and> gameStartedRef (dispatch StartGame (mounted None))
   \<and> length (filter isFrame (SetDuck True # replicate 650 (Frame 0.9))) = 650
   \<and> collisionFree (SetDuck True # replicate 650 (Frame 0.9)) (dispatch StartGame (mounted None))
   \<and> score (dispatch (Frame 0.9) (dispatch StartGame (mounted None))) = 1
   \<and> gameOver (run (SetDuck True # replicate 650 (Frame 0.9)) (dispatch StartGame (mounted None))) = False
   \<and> score (run (SetDuck True # replicate 650 (Frame 0.9)) (dispatch StartGame (mounted None))) = 650"
proof -
  let ?s = "mounted None"
  let ?es = "SetDuck True # replicate 650 (Frame 0.9)"
  note st = startGame_fresh [of ?s]
  have a: "gameStarted (dispatch StartGame ?s)" "\<not> gameOver (dispatch StartGame ?s)"
    "gameStartedRef (dispatch StartGame ?s)"
    using st(1) by (simp_all add: active_def)
  have p: "\<forall>e\<in>set ?es. e \<noteq> StartGame \<and> playing e" by simp
  have l: "length (filter isFrame ?es) = 650" by simp
  have c: "collisionFree ?es (dispatch StartGame ?s)"
    using duckingUnderHigh_run [OF duckingUnderHigh_start, of "0.9" 650 ?s] by simp
  from score_counts_frames [of "dispatch StartGame ?s" "0.9" ?es]
    score_counts_frames [of ?s "0.9" ?es] a st(2,3) p l c
  show ?thesis by simp
qed

section \<open>High score\<close>

text \<open>
  Claim C4, as the code has it. The effect compares the raw score with the last
  recorded high score and with the fixed threshold 100. Whenever the game is started
  and the score exceeds both, it sets the flag \<open>achievedNewHighScore\<close>, raises the
  in-memory high score and the last recorded high score to the score, and writes the
  score to the store; otherwise it leaves the flag and both values alone. The flag,
  once set, stays set for the rest of the run. A run started with the recorded high
  score \<open>h\<close> that has reached a score above \<open>h\<close> and above 100 has the flag set and
  holds its score as the in-memory high score and in the store.
\<close>

theorem high_score_tracking:
  "(newHighScore s \<longrightarrow>
      achievedNewHighScore (highScoreEffect s)
      \<and> highScore (highScoreEffect s) = Num (score s)
      \<and> lastHighScoreRef (highScoreEffect s) = Num (score s)
      \<and> storage (highScoreEffect s) = Some (toString (score s)))
   \<and> (\<not> newHighScore s \<longrightarrow>
      achievedNewHighScore (highScoreEffect s) = achievedNewHighScore s
      \<and> highScore (highScoreEffect s) = highScore s
      \<and> lastHighScoreRef (highScoreEffect s) = lastHighScoreRef s)
   \<and> (gameStartedRef s \<and> achievedNewHighScore s \<and> (\<forall>e\<in>set es. e \<noteq> StartGame) \<longrightarrow>
      achievedNewHighScore (run es s))
   \<and> (lastHighScoreRef s = Num h \<and> (\<forall>e\<in>set es. e \<noteq> StartGame)
        \<and> score (run es (dispatch StartGame s)) > h
        \<and> score (run es (dispatch StartGame s)) > 100 \<longrightarrow>
      (let s' = run es (dispatch StartGame s)
       in achievedNewHighScore s' \<and> highScore s' = Num (score s')
          \<and> lastHighScoreRef s' = Num (score s')
          \<and> storage s' = Some (toString (score s'))))"
proof -
  note 1 = highScoreEffect_tracking [of s]
  note 2 = highScoreEffect_idle [of s]
  have 3: "gameStartedRef s \<and> achievedNewHighScore s \<and> (\<forall>e\<in>set es. e \<noteq> StartGame) \<longrightarrow>
      achievedNewHighScore (run es s)"
    using latch_run [of s es] by blast
  have 4: "achievedNewHighScore s' \<and> highScore s' = Num (score s')
          \<and> lastHighScoreRef s' = Num (score s')
          \<and> storage s' = Some (toString (score s'))"
    if "lastHighScoreRef s = Num h" "\<forall>e\<in>set es. e \<noteq> StartGame"
      "score s' > h" "score s' > 100" "s' = run es (dispatch StartGame s)" for s'
    using tracking_run [OF tracking_start [OF that(1)] that(2)] that(3,4,5)
    by (simp add: tracking_def)
  from 1 2 3 4 show ?thesis unfolding Let_def by blast
qed

theorem high_score_tracking_witness:
  "newHighScore ((startGame (mounted (Some ''50'')))\<lparr> score := 101 \<rparr>)
   \<and> storage (highScoreEffect ((startGame (mounted (Some ''50'')))\<lparr> score := 101 \<rparr>)) = Some ''101''
   \<and> \<not> newHighScore ((startGame (mounted (Some ''50'')))\<lparr> score := 60 \<rparr>)
   \<and> lastHighScoreRef (highScoreEffect ((startGame (mounted (Some ''50'')))\<lparr> score := 60 \<rparr>)) = Num 50
   \<and> lastHighScoreRef (mounted (Some ''50'')) = Num 50
   \<and> score (duckedRun (Some ''50'') 600) = 600
   \<and> achievedNewHighScore (duckedRun (Some ''50'') 600)
   \<and> highScore (duckedRun (Some ''50'') 600) = Num 600
   \<and> storage (duckedRun (Some ''50'') 600) = Some ''600''
   \<and> gameStartedRef (duckedRun (Some ''50'') 600)
   \<and> achievedNewHighScore (run [Frame 0.9, Jump, Frame 0.2] (duckedRun (Some ''50'') 600))"
proof -
  let ?a = "(startGame (mounted (Some ''50'')))\<lparr> score := 101 \<rparr>"
  let ?b = "(startGame (mounted (Some ''50'')))\<lparr> score := 60 \<rparr>"
  let ?es = "SetDuck True # replicate 600 (Frame 0.9)"
  let ?r = "duckedRun (Some ''50'') 600"
  have a: "newHighScore ?a" "toString (score ?a) = ''101''"
    by (simp_all add: newHighScore_def startGame_def mounted_50 toString_examples)
  have b: "\<not> newHighScore ?b" "lastHighScoreRef ?b = Num 50"
    by (simp_all add: newHighScore_def startGame_def mounted_50)
  have e: "\<forall>e\<in>set ?es. e \<noteq> StartGame" by simp
  have r: "?r = run ?es (dispatch StartGame (mounted (Some ''50'')))"
    by (simp add: duckedRun_def)
  have sc: "score ?r = 600" using duckedRun_facts(2) [of "Some ''50''" 600] by simp
  have g: "gameStartedRef ?r"
    using duckedRun_facts(1) [of "Some ''50''" 600] by (simp add: duckingUnderHigh_def active_def)
  from high_score_tracking [of ?a "[]" 50]
    high_score_tracking [of ?b "[]" 50]
    high_score_tracking [of "mounted (Some ''50'')" ?es 50]
    high_score_tracking [of ?r "[Frame 0.9, Jump, Frame 0.2]" 50]
    a b e sc g mounted_50
  show ?thesis
    unfolding r [symmetric] Let_def by (simp add: toString_examples)
qed

text \<open>
  Claim C4 as stated fails. The branch is not taken once per run: with the stored high
  score 50 it is taken in frame 101, where the displayed score 10 is below 50, and
  again in frame 102, and each time the store receives the score.
\<close>

theorem new_high_score_fires_again:
  "lastHighScoreRef (mounted (Some ''50'')) = Num 50
   \<and> score (tick 0.9 (duckedRun (Some ''50'') 100)) = 101
   \<and> newHighScore (tick 0.9 (duckedRun (Some ''50'') 100))
   \<and> storage (duckedRun (Some ''50'') 101) = Some ''101''
   \<and> score (tick 0.9 (duckedRun (Some ''50'') 101)) = 102
   \<and> newHighScore (tick 0.9 (duckedRun (Some ''50'') 101))
   \<and> storage (duckedRun (Some ''50'') 102) = Some ''102''"
proof -
  let ?st = "Some ''50''"
  have t: "lastHighScoreRef (duckedRun ?st 100) = Num 50"
    "lastHighScoreRef (duckedRun ?st 101) = Num 101"
    "storage (duckedRun ?st 101) = Some ''101''"
    "storage (duckedRun ?st 102) = Some ''102''"
    using duckedRun_tracking [of 100] duckedRun_tracking [of 101] duckedRun_tracking [of 102]
      duckedRun_facts(2) [of ?st 100] duckedRun_facts(2) [of ?st 101]
      duckedRun_facts(2) [of ?st 102]
    by (simp_all add: tracking_def toString_examples)
  from t duckedRun_tick [of ?st 100] duckedRun_tick [of ?st 101] mounted_50
  show ?thesis by (simp add: newHighScore_def)
qed

text \<open>
  Claim C9, where the code departs from it. A missing or empty entry leaves the high
  score at 0, but an entry that \<open>parseInt\<close> cannot read, such as \<open>abc\<close>, makes the
  in-memory high score and the last recorded high score \<open>NaN\<close>. No score compares
  greater than \<open>NaN\<close>: a run of 500 frames then leaves the high score \<open>NaN\<close>, the flag
  unset and the store at \<open>abc\<close>, where the same run without a stored entry records
  the high score 500.
\<close>

theorem corrupt_high_score_is_NaN:
  "highScore (mounted (Some ''abc'')) = NaN
   \<and> lastHighScoreRef (mounted (Some ''abc'')) = NaN
   \<and> highScore (mounted None) = Num 0
   \<and> highScore (mounted (Some '''')) = Num 0
   \<and> score (duckedRun (Some ''abc'') 500) = 500
   \<and> highScore (duckedRun (Some ''abc'') 500) = NaN
   \<and> \<not> achievedNewHighScore (duckedRun (Some ''abc'') 500)
   \<and> storage (duckedRun (Some ''abc'') 500) = Some ''abc''
   \<and> score (duckedRun None 500) = 500
   \<and> highScore (duckedRun None 500) = Num 500
   \<and> achievedNewHighScore (duckedRun None 500)
   \<and> storage (duckedRun None 500) = Some ''500''"
proof -
  have "highScore (duckedRun (Some ''abc'') 500) = NaN
     \<and> lastHighScoreRef (duckedRun (Some ''abc'') 500) = NaN
     \<and> storage (duckedRun (Some ''abc'') 500) = storage (mounted (Some ''abc''))
     \<and> (achievedNewHighScore (duckedRun (Some ''abc'') 500)
          \<longrightarrow> achievedNewHighScore (mounted (Some ''abc'')))"
    unfolding duckedRun_def
    using NaN_run [OF mounted_abc(1,2), of "StartGame # SetDuck True # replicate 500 (Frame 0.9)"]
    by simp
  moreover have "tracking 0 (duckedRun None 500)"
    by (rule duckedRun_tracking_from) (rule mounted_None)
  moreover have "toString 500 = ''500''"
    by (simp add: toString_def digitsOf.simps)
  ultimately show ?thesis
    using duckedRun_facts(2) [of "Some ''abc''" 500] duckedRun_facts(2) [of None 500]
    by (simp add: mounted_abc mounted_None tracking_def)
qed

end
